theory Spec2Isabelle
  imports Complex_Main
begin

section \<open>Numbers and vectors\<close>

text \<open>
  The gesture library computes on JavaScript numbers. They are modelled as the real
  numbers: NaN, the infinities and rounding are outside the model. A \<open>Vector2\<close> is a
  pair. The union type \<open>false | number\<close> of a per-axis intentionality is
  \<open>real option\<close>, with \<open>None\<close> for \<open>false\<close>. A leading underscore of a source
  name is written \<open>u_\<close> (\<open>_active\<close> is \<open>u_active\<close>).
\<close>

type_synonym vec2 = "real \<times> real"

type_synonym intentional = "real option \<times> real option"

text \<open>\<open>addV\<close> and \<open>subV\<close> of the math library, at the type \<open>Vector2\<close>.\<close>

definition addV :: "vec2 \<Rightarrow> vec2 \<Rightarrow> vec2" where
  "addV v1 v2 = (fst v1 + fst v2, snd v1 + snd v2)"

definition subV :: "vec2 \<Rightarrow> vec2 \<Rightarrow> vec2" where
  "subV v1 v2 = (fst v1 - fst v2, snd v1 - snd v2)"

section \<open>The kinematics library\<close>

text \<open>
  The kinematics functions take arrays of any length, so they are modelled on lists.
  A JavaScript division whose divisor is zero does not give a number of the model
  (it gives an infinity or NaN): \<open>js_div\<close> returns \<open>None\<close> there, and every
  function that divides returns an option, so that a division by zero anywhere is
  visible in the result.
\<close>

definition js_div :: "real \<Rightarrow> real \<Rightarrow> real option" where
  "js_div a b = (if b = 0 then None else Some (a / b))"

text \<open>\<open>Math.hypot(...v)\<close>.\<close>

definition hypot :: "real list \<Rightarrow> real" where
  "hypot v = sqrt (sum_list (map (\<lambda>x. x * x) v))"

text \<open>
  \<open>len = len || Math.hypot(...delta); return delta_t ? len / delta_t : 0\<close>.
  A number is falsy exactly when it is zero.
\<close>

definition calculateVelocity :: "real list \<Rightarrow> real \<Rightarrow> real \<Rightarrow> real option" where
  "calculateVelocity delta delta_t len =
     (let len' = (if len \<noteq> 0 then len else hypot delta)
      in if delta_t \<noteq> 0 then js_div len' delta_t else Some 0)"

definition calculateVelocities :: "real list \<Rightarrow> real \<Rightarrow> real list option" where
  "calculateVelocities delta delta_t =
     (if delta_t \<noteq> 0 then those (map (\<lambda>v. js_div v delta_t) delta)
      else Some (replicate (length delta) 0))"

definition calculateDistance :: "real list \<Rightarrow> real" where
  "calculateDistance movement = hypot movement"

text \<open>
  \<open>len = len || Math.hypot(...delta) || 1\<close>; the optional argument \<open>len\<close> is
  \<open>None\<close> when it is not passed.
\<close>

definition calculateDirection :: "real list \<Rightarrow> real option \<Rightarrow> real list option" where
  "calculateDirection delta len =
     (let len' = (case len of
                    Some l \<Rightarrow> if l \<noteq> 0 then l
                             else if hypot delta \<noteq> 0 then hypot delta else 1
                  | None \<Rightarrow> if hypot delta \<noteq> 0 then hypot delta else 1)
      in those (map (\<lambda>v. js_div v len') delta))"

record kinematics =
  k_velocities :: "real list"
  k_velocity :: real
  k_distance :: real
  k_direction :: "real list"

definition calculateAllKinematics ::
  "real list \<Rightarrow> real list \<Rightarrow> real \<Rightarrow> kinematics option" where
  "calculateAllKinematics movement delta delta_t =
     (let len = hypot delta
      in case calculateVelocities delta delta_t of
           None \<Rightarrow> None
         | Some vs \<Rightarrow>
             (case calculateVelocity delta delta_t len of
                None \<Rightarrow> None
              | Some v \<Rightarrow>
                  (case calculateDirection delta (Some len) of
                     None \<Rightarrow> None
                   | Some d \<Rightarrow>
                       Some \<lparr>k_velocities = vs, k_velocity = v,
                             k_distance = calculateDistance movement,
                             k_direction = d\<rparr>)))"

text \<open>\<open>getIntentional\<close> of the math library.\<close>

definition getIntentional :: "real \<Rightarrow> real \<Rightarrow> real option" where
  "getIntentional movement threshold =
     (let a = \<bar>movement\<bar>
      in if a \<ge> threshold then Some (sgn movement * threshold) else None)"

section \<open>The config resolver\<close>

definition DEFAULT_DRAG_DELAY :: real where "DEFAULT_DRAG_DELAY = 180"
definition DEFAULT_RUBBERBAND :: real where "DEFAULT_RUBBERBAND = 0.15"
definition DEFAULT_SWIPE_VELOCITY :: real where "DEFAULT_SWIPE_VELOCITY = 0.5"
definition DEFAULT_SWIPE_DISTANCE :: real where "DEFAULT_SWIPE_DISTANCE = 60"

text \<open>
  An option value of type \<open>number | Vector2\<close>, and the union of a type with
  \<open>boolean\<close>. An option the user left out is \<open>None\<close> (\<open>undefined\<close>), which a
  default parameter replaces.
\<close>

datatype number_or_vector = Num real | Vec vec2

datatype 'a or_boolean = Boolean bool | Other 'a

datatype axis_name = AxisX | AxisY

text \<open>
  Modelled from the spec: \<open>ensureVector\<close> of \<open>utils/utils\<close> is not among the
  sources. The spec resolves the number 0.15 to the vector (0.15, 0.15) and passes a
  vector through, so a number is doubled into a vector and a vector is returned as it
  is; an absent value takes the fallback.
\<close>

definition ensureVector :: "number_or_vector \<Rightarrow> vec2" where
  "ensureVector value = (case value of Num n \<Rightarrow> (n, n) | Vec v \<Rightarrow> v)"

definition ensureVector_fallback :: "number_or_vector option \<Rightarrow> number_or_vector \<Rightarrow> vec2" where
  "ensureVector_fallback value fallback =
     (case value of None \<Rightarrow> ensureVector fallback | Some v \<Rightarrow> ensureVector v)"

text \<open>The user's bounds object \<open>{left, right, top, bottom}\<close> (\<open>top\<close> is written
  \<open>top_b\<close>); an absent side is infinite.\<close>

record bounds_config =
  left :: "real option"
  right :: "real option"
  top_b :: "real option"
  bottom :: "real option"

text \<open>
  A resolved bound \<open>[min, max]\<close>: \<open>None\<close> as \<open>min\<close> is \<open>-Infinity\<close>, \<open>None\<close> as
  \<open>max\<close> is \<open>Infinity\<close>.
\<close>

type_synonym bound = "real option \<times> real option"

text \<open>
  The user's drag options (\<open>DragConfig\<close>, every field optional). The function-valued
  forms of \<open>initial\<close> and \<open>bounds\<close> are left out of the model.
\<close>

record drag_config =
  c_threshold :: "number_or_vector option"
  c_rubberband :: "number_or_vector or_boolean option"
  c_enabled :: "bool option"
  c_triggerAllEvents :: "bool option"
  c_initial :: "number_or_vector option"
  c_axis :: "axis_name option"
  c_lockDirection :: "bool option"
  c_bounds :: "bounds_config option"
  c_swipeVelocity :: "number_or_vector option"
  c_swipeDistance :: "number_or_vector option"
  c_delay :: "real or_boolean option"
  c_filterTaps :: "bool option"

text \<open>The resolved options (\<open>InternalDragOptions\<close>).\<close>

record internal_config =
  threshold :: vec2
  rubberband :: vec2
  enabled :: bool
  triggerAllEvents :: bool
  cfg_initial :: vec2
  axis :: "axis_name option"
  lockDirection :: bool
  bounds :: "bound \<times> bound"
  swipeVelocity :: vec2
  swipeDistance :: vec2
  delay :: real
  filterTaps :: bool

text \<open>\<open>InternalGestureOptionsNormalizers.rubberband(value = 0)\<close>: a \<open>switch\<close> on the value.\<close>

definition rubberband_normalizer :: "number_or_vector or_boolean option \<Rightarrow> vec2" where
  "rubberband_normalizer value =
     (case (case value of None \<Rightarrow> Other (Num 0) | Some v \<Rightarrow> v) of
        Boolean True \<Rightarrow> ensureVector (Num DEFAULT_RUBBERBAND)
      | Boolean False \<Rightarrow> ensureVector (Num 0)
      | Other v \<Rightarrow> ensureVector v)"

definition enabled_normalizer :: "bool option \<Rightarrow> bool" where
  "enabled_normalizer value = (case value of None \<Rightarrow> True | Some v \<Rightarrow> v)"

definition triggerAllEvents_normalizer :: "bool option \<Rightarrow> bool" where
  "triggerAllEvents_normalizer value = (case value of None \<Rightarrow> False | Some v \<Rightarrow> v)"

definition initial_normalizer :: "number_or_vector option \<Rightarrow> vec2" where
  "initial_normalizer value = ensureVector (case value of None \<Rightarrow> Num 0 | Some v \<Rightarrow> v)"

definition lockDirection_normalizer :: "bool option \<Rightarrow> bool" where
  "lockDirection_normalizer value = (case value of None \<Rightarrow> False | Some v \<Rightarrow> v)"

definition bounds_normalizer :: "bounds_config option \<Rightarrow> bound \<times> bound" where
  "bounds_normalizer value =
     (case value of
        None \<Rightarrow> ((None, None), (None, None))
      | Some b \<Rightarrow> ((left b, right b), (top_b b, bottom b)))"

text \<open>
  \<open>InternalDragOptionsNormalizers.threshold\<close>: the vector, and the value it stores in
  \<open>this.filterTaps\<close>.
\<close>

definition threshold_normalizer :: "number_or_vector option \<Rightarrow> drag_config \<Rightarrow> vec2" where
  "threshold_normalizer v config =
     (let filterTaps' = (case c_filterTaps config of None \<Rightarrow> False | Some f \<Rightarrow> f);
          lockDirection' = (case c_lockDirection config of None \<Rightarrow> False | Some l \<Rightarrow> l)
      in ensureVector_fallback v
           (Num (if filterTaps' then 3 else if lockDirection' then 1
                 else if c_axis config \<noteq> None then 1 else 0)))"

definition threshold_filterTaps :: "number_or_vector option \<Rightarrow> drag_config \<Rightarrow> bool" where
  "threshold_filterTaps v config =
     (let filterTaps' = (case c_filterTaps config of None \<Rightarrow> False | Some f \<Rightarrow> f);
          A = threshold_normalizer v config
      in filterTaps' \<or> fst A + snd A > 0)"

definition swipeVelocity_normalizer :: "number_or_vector option \<Rightarrow> vec2" where
  "swipeVelocity_normalizer v =
     ensureVector (case v of None \<Rightarrow> Num DEFAULT_SWIPE_VELOCITY | Some x \<Rightarrow> x)"

definition swipeDistance_normalizer :: "number_or_vector option \<Rightarrow> vec2" where
  "swipeDistance_normalizer v =
     ensureVector (case v of None \<Rightarrow> Num DEFAULT_SWIPE_DISTANCE | Some x \<Rightarrow> x)"

text \<open>\<open>InternalDragOptionsNormalizers.delay(value = 0)\<close>.\<close>

definition delay_normalizer :: "real or_boolean option \<Rightarrow> real" where
  "delay_normalizer value =
     (case (case value of None \<Rightarrow> Other 0 | Some v \<Rightarrow> v) of
        Boolean True \<Rightarrow> DEFAULT_DRAG_DELAY
      | Boolean False \<Rightarrow> 0
      | Other n \<Rightarrow> n)"

text \<open>
  Modelled from the spec: \<open>resolveWith\<close> of \<open>utils/resolveOptionsWith\<close> is not among
  the sources. The spec has the resolver turn the partial options into the canonical
  ones field by field, each field resolved independently by its normalizer.
\<close>

definition getInternalDragOptions :: "drag_config \<Rightarrow> internal_config" where
  "getInternalDragOptions config =
     \<lparr>threshold = threshold_normalizer (c_threshold config) config,
      rubberband = rubberband_normalizer (c_rubberband config),
      enabled = enabled_normalizer (c_enabled config),
      triggerAllEvents = triggerAllEvents_normalizer (c_triggerAllEvents config),
      cfg_initial = initial_normalizer (c_initial config),
      axis = c_axis config,
      lockDirection = lockDirection_normalizer (c_lockDirection config),
      bounds = bounds_normalizer (c_bounds config),
      swipeVelocity = swipeVelocity_normalizer (c_swipeVelocity config),
      swipeDistance = swipeDistance_normalizer (c_swipeDistance config),
      delay = delay_normalizer (c_delay config),
      filterTaps = threshold_filterTaps (c_threshold config) config\<rparr>"

section \<open>Events and state\<close>

text \<open>The handler's return value and the memo (\<open>any\<close>).\<close>

datatype js_value = JUndefined | JNumber real | JString string | JBoolean bool

text \<open>
  A pointer event. The helpers \<open>getPointerEventValues\<close> and \<open>getGenericEventData\<close>
  of \<open>utils/event\<close> are not among the sources: the event carries what they extract,
  the pointer coordinates as \<open>ev_values\<close> and the button, touch and modifier
  snapshot as \<open>ev_down\<close>, \<open>ev_buttons\<close>, \<open>ev_touches\<close> and \<open>ev_modifiers\<close>.
\<close>

record pointer_event =
  pointerId :: int
  ev_type :: string
  ev_timeStamp :: real
  ev_values :: vec2
  ev_down :: bool
  ev_buttons :: nat
  ev_touches :: nat
  ev_modifiers :: "bool \<times> bool \<times> bool \<times> bool"

text \<open>The shared state; \<open>dragging\<close> is the flag \<open>shared[ingKey]\<close> of the drag recognizer.\<close>

record shared_state =
  down :: bool
  buttons :: nat
  touches :: nat
  modifiers :: "bool \<times> bool \<times> bool \<times> bool"
  dragging :: bool

datatype cancel_fn = Noop | OnCancel

text \<open>
  The gesture state of the drag kind. \<open>values\<close> is written \<open>values_v\<close> and \<open>last\<close>
  is written \<open>last_g\<close>; the constant \<open>args\<close> is left out.
\<close>

record gesture_state =
  u_active :: bool
  u_blocked :: bool
  u_intentional :: intentional
  u_movement :: vec2
  u_initial :: vec2
  u_lastEventType :: "string option"
  u_isTap :: bool
  u_delayedEvent :: bool
  u_pointerId :: "int option"
  event :: "pointer_event option"
  values_v :: vec2
  velocities :: vec2
  delta :: vec2
  movement :: vec2
  offset :: vec2
  lastOffset :: vec2
  direction :: vec2
  initial :: vec2
  previous :: vec2
  first :: bool
  last_g :: bool
  active :: bool
  timeStamp :: real
  startTime :: real
  elapsedTime :: real
  cancel :: cancel_fn
  canceled :: bool
  memo :: js_value
  velocity :: real
  distance :: real
  tap :: bool
  swipe :: vec2

text \<open>
  The controller, as far as the drag recognizer uses it: the drag and the shared state,
  the timer handle \<open>timeouts[stateKey]\<close>, the platform's pending timers (identifier,
  delay and the event that \<open>startDrag\<close> will receive), whether the window listeners
  of the drag are attached, the animation frames requested by \<open>onCancel\<close>, and the
  log of the handler's invocations with the state each received.
\<close>

record controller =
  drag :: gesture_state
  shared :: shared_state
  timeouts :: "nat option"
  timers :: "(nat \<times> real \<times> pointer_event) list"
  next_timer :: nat
  windowListeners :: bool
  animationFrames :: nat
  calls :: "(shared_state \<times> gesture_state) list"

text \<open>
  A recognizer: its config, the flag \<open>debounced\<close>, and the methods a gesture kind
  supplies or overrides (but \<open>clean\<close>, which is fixed to the drag recognizer's).
  \<open>checkIntentionality\<close> returns \<open>_intentional\<close> and \<open>_blocked\<close>. The handler is
  a function of the merged state it receives (the shared state, the gesture state and
  what \<open>mapStateValues\<close> derives from the gesture state); it returns the new memo.
\<close>

record recognizer =
  generic_enabled :: bool
  config :: internal_config
  debounced :: bool
  checkIntentionality :: "intentional \<Rightarrow> vec2 \<Rightarrow> gesture_state \<Rightarrow> intentional \<times> bool"
  getInternalMovement :: "vec2 \<Rightarrow> gesture_state \<Rightarrow> vec2"
  handler :: "shared_state \<Rightarrow> gesture_state \<Rightarrow> js_value"

text \<open>
  Modelled from the spec: \<open>getInitialState\<close> of \<open>utils/state\<close> is not among the
  sources. The spec's data model lists the fields of a gesture state; an idle gesture
  has no intentional axis, every vector and number at zero and every flag false, but
  the tap flag, which a session keeps until the distance from its start crosses the
  tap threshold.
\<close>

definition getInitialState :: gesture_state where
  "getInitialState =
     \<lparr>u_active = False, u_blocked = False, u_intentional = (None, None),
      u_movement = (0, 0), u_initial = (0, 0), u_lastEventType = None,
      u_isTap = True, u_delayedEvent = False, u_pointerId = None, event = None,
      values_v = (0, 0), velocities = (0, 0), delta = (0, 0), movement = (0, 0),
      offset = (0, 0), lastOffset = (0, 0), direction = (0, 0), initial = (0, 0),
      previous = (0, 0), first = False, last_g = False, active = False,
      timeStamp = 0, startTime = 0, elapsedTime = 0, cancel = Noop, canceled = False,
      memo = JUndefined, velocity = 0, distance = 0, tap = False, swipe = (0, 0)\<rparr>"

section \<open>The recognizer core\<close>

text \<open>\<open>enabled\<close>: the controller's and the gesture's switch.\<close>

definition recognizer_enabled :: "recognizer \<Rightarrow> bool" where
  "recognizer_enabled r = (generic_enabled r \<and> enabled (config r))"

text \<open>\<open>updateSharedState(getGenericEventData(event))\<close>.\<close>

definition updateSharedState_event :: "pointer_event \<Rightarrow> controller \<Rightarrow> controller" where
  "updateSharedState_event e c =
     c\<lparr>shared := (shared c)\<lparr>down := ev_down e, buttons := ev_buttons e,
                             touches := ev_touches e, modifiers := ev_modifiers e\<rparr>\<rparr>"

text \<open>\<open>updateSharedState({ down: false, buttons: 0, touches: 0 })\<close>.\<close>

definition updateSharedState_up :: "controller \<Rightarrow> controller" where
  "updateSharedState_up c =
     c\<lparr>shared := (shared c)\<lparr>down := False, buttons := 0, touches := 0\<rparr>\<rparr>"

text \<open>
  \<open>setTimeout\<close> stores the new timer's handle over the old one without clearing the
  old timer; \<open>clearTimeout\<close> removes the timer of the stored handle, if it is pending.
\<close>

definition setTimeout :: "real \<Rightarrow> pointer_event \<Rightarrow> controller \<Rightarrow> controller" where
  "setTimeout ms e c =
     c\<lparr>timeouts := Some (next_timer c),
       timers := timers c @ [(next_timer c, ms, e)],
       next_timer := Suc (next_timer c)\<rparr>"

definition clearTimeout :: "controller \<Rightarrow> controller" where
  "clearTimeout c =
     (case timeouts c of
        None \<Rightarrow> c
      | Some h \<Rightarrow> c\<lparr>timers := filter (\<lambda>t. fst t \<noteq> h) (timers c)\<rparr>)"

text \<open>\<open>Recognizer.checkIntentionality\<close>, the implementation of the base class.\<close>

definition checkIntentionality_base ::
  "intentional \<Rightarrow> vec2 \<Rightarrow> gesture_state \<Rightarrow> intentional \<times> bool" where
  "checkIntentionality_base i m s = (i, False)"

definition getIntentionalDisplacement :: "real \<Rightarrow> real \<Rightarrow> real option" where
  "getIntentionalDisplacement m t =
     (if \<bar>m\<bar> \<ge> t then Some (sgn m * t) else None)"

text \<open>
  Modelled from the spec: \<open>rubberbandIfOutOfBounds\<close> of \<open>utils/rubberband\<close> is not
  among the sources. By the spec a value inside the range passes through unchanged,
  a factor of 0 is a hard clamp at the bound, and a value past a bound is compressed
  towards it by sign * (1 - 1 / (|excess| * factor / extent + 1)) * extent + bound.
  Where the extent of the range is infinite the curve is taken at its limit,
  |excess| * factor.
\<close>

definition minMax :: "real \<Rightarrow> real option \<Rightarrow> real option \<Rightarrow> real" where
  "minMax v mn mx =
     (let v' = (case mx of None \<Rightarrow> v | Some M \<Rightarrow> min v M)
      in case mn of None \<Rightarrow> v' | Some m \<Rightarrow> max m v')"

definition rubberband_curve :: "real \<Rightarrow> real option \<Rightarrow> real \<Rightarrow> real" where
  "rubberband_curve excess extent factor =
     (case extent of
        None \<Rightarrow> excess * factor
      | Some d \<Rightarrow> (1 - 1 / (excess * factor / d + 1)) * d)"

definition rubberbandIfOutOfBounds ::
  "real \<Rightarrow> real option \<Rightarrow> real option \<Rightarrow> real \<Rightarrow> real" where
  "rubberbandIfOutOfBounds position mn mx factor =
     (let extent = (case (mn, mx) of (Some m, Some M) \<Rightarrow> Some (M - m) | _ \<Rightarrow> None)
      in if factor = 0 then minMax position mn mx
         else if (case mn of None \<Rightarrow> False | Some m \<Rightarrow> position < m)
         then the mn - rubberband_curve (the mn - position) extent factor
         else if (case mx of None \<Rightarrow> False | Some M \<Rightarrow> position > M)
         then the mx + rubberband_curve (position - the mx) extent factor
         else position)"

definition computeRubberband :: "recognizer \<Rightarrow> vec2 \<Rightarrow> vec2 \<Rightarrow> vec2" where
  "computeRubberband r v rb =
     (let b = bounds (config r)
      in (rubberbandIfOutOfBounds (fst v) (fst (fst b)) (snd (fst b)) (fst rb),
          rubberbandIfOutOfBounds (snd v) (fst (snd b)) (snd (snd b)) (snd rb)))"

text \<open>
  The partial state \<open>getMovement\<close> returns. The keys \<open>_initial\<close>, \<open>movement\<close>,
  \<open>values\<close> and \<open>offset\<close> are absent (\<open>None\<close>) when the gesture is blocked.
\<close>

record movement_rest =
  r_u_initial :: vec2
  r_movement :: vec2
  r_values :: vec2
  r_offset :: vec2

record movement_state =
  m_u_intentional :: intentional
  m_u_blocked :: bool
  m_u_movement :: vec2
  m_delta :: vec2
  m_rest :: "movement_rest option"

text \<open>
  The movement of lines 145 to 148, before the rubberband: the displacement minus the
  threshold on an intentional axis, the configured initial value on the others.
\<close>

definition thresholdedMovement :: "recognizer \<Rightarrow> intentional \<Rightarrow> vec2 \<Rightarrow> vec2" where
  "thresholdedMovement r i m =
     ((case fst i of Some i0 \<Rightarrow> fst m - i0 | None \<Rightarrow> fst (cfg_initial (config r))),
      (case snd i of Some i1 \<Rightarrow> snd m - i1 | None \<Rightarrow> snd (cfg_initial (config r))))"

text \<open>
  The intentionality of lines 118 to 123: an axis that is still \<open>false\<close> is
  recomputed from the displacement, an axis that is not keeps its value.
\<close>

definition intentionalDisplacements :: "recognizer \<Rightarrow> gesture_state \<Rightarrow> vec2 \<Rightarrow> intentional" where
  "intentionalDisplacements r state m =
     (let t = threshold (config r);
          intentional = u_intentional state
      in ((if fst intentional = None
           then getIntentionalDisplacement (fst m) (fst t) else fst intentional),
          (if snd intentional = None
           then getIntentionalDisplacement (snd m) (snd t) else snd intentional)))"

text \<open>
  The array \<open>_initial\<close> after lines 132 and 133: the component of an axis that has
  just become intentional is set to the configured initial value.
\<close>

definition initialAtCrossing :: "recognizer \<Rightarrow> gesture_state \<Rightarrow> intentional \<Rightarrow> vec2" where
  "initialAtCrossing r state i =
     ((if fst i \<noteq> None \<and> fst (u_intentional state) = None
       then fst (cfg_initial (config r)) else fst (u_initial state)),
      (if snd i \<noteq> None \<and> snd (u_intentional state) = None
       then snd (cfg_initial (config r)) else snd (u_initial state)))"

text \<open>
  \<open>getMovement(values)\<close> reads \<open>this.state\<close>. It writes the components of the array
  \<open>_initial\<close> of that state in place, so it returns the state with that array
  updated, and the partial state.
\<close>

definition getMovement ::
  "recognizer \<Rightarrow> gesture_state \<Rightarrow> vec2 \<Rightarrow> gesture_state \<times> movement_state" where
  "getMovement r state vals =
     (let m = getInternalMovement r vals state;
          intentionalityCheck = checkIntentionality r (intentionalDisplacements r state m) m state;
          i' = fst intentionalityCheck;
          blocked = snd intentionalityCheck;
          initial' = initialAtCrossing r state i';
          state' = state\<lparr>u_initial := initial'\<rparr>
      in if blocked
         then (state', \<lparr>m_u_intentional = i', m_u_blocked = blocked, m_u_movement = m,
                        m_delta = (0, 0), m_rest = None\<rparr>)
         else
           (let mv = thresholdedMovement r i' m;
                off = addV mv (lastOffset state);
                rb = (if u_active state then rubberband (config r) else (0, 0));
                mv' = computeRubberband r (addV mv initial') rb
            in (state', \<lparr>m_u_intentional = i', m_u_blocked = blocked, m_u_movement = m,
                          m_delta = subV mv' (movement state),
                          m_rest = Some \<lparr>r_u_initial = initial', r_movement = mv',
                                          r_values = vals,
                                          r_offset = computeRubberband r off rb\<rparr>\<rparr>)))"

text \<open>\<open>updateGestureState\<close> with a partial state of \<open>getMovement\<close>.\<close>

definition assignMovement :: "movement_state \<Rightarrow> gesture_state \<Rightarrow> gesture_state" where
  "assignMovement p s =
     (let s1 = s\<lparr>u_intentional := m_u_intentional p, u_blocked := m_u_blocked p,
                  u_movement := m_u_movement p, delta := m_delta p\<rparr>
      in case m_rest p of
           None \<Rightarrow> s1
         | Some q \<Rightarrow> s1\<lparr>u_initial := r_u_initial q, movement := r_movement q,
                         values_v := r_values q, offset := r_offset q\<rparr>)"

text \<open>\<open>Recognizer.clean\<close> of the base class.\<close>

definition clean_base :: "controller \<Rightarrow> controller" where
  "clean_base c = clearTimeout c"

text \<open>
  \<open>DragRecognizer.clean\<close>: the base class's \<open>clean\<close>, then its own resets. The
  model is of the drag recognizer, where \<open>this.clean()\<close> is this method.
\<close>

definition clean_drag :: "controller \<Rightarrow> controller" where
  "clean_drag c =
     (let c1 = clean_base c
      in c1\<lparr>drag := (drag c1)\<lparr>u_delayedEvent := False\<rparr>, windowListeners := False\<rparr>)"

text \<open>
  \<open>fireGestureHandler(forceFlag)\<close>: the state the handler received, or \<open>None\<close> for
  \<open>null\<close>, and the controller afterwards. An omitted \<open>forceFlag\<close> is \<open>False\<close>.
\<close>

definition fireGestureHandler ::
  "recognizer \<Rightarrow> bool \<Rightarrow> controller \<Rightarrow> (shared_state \<times> gesture_state) option \<times> controller" where
  "fireGestureHandler r forceFlag c =
     (if u_blocked (drag c)
      then (if \<not> debounced r
            then (None, clean_drag (c\<lparr>drag := (drag c)\<lparr>u_active := False\<rparr>\<rparr>))
            else (None, c))
      else if \<not> forceFlag \<and> fst (u_intentional (drag c)) = None
                \<and> snd (u_intentional (drag c)) = None
      then (None, c)
      else
        (let a' = u_active (drag c);
             a = active (drag c);
             s1 = (drag c)\<lparr>active := a', first := (a' \<and> \<not> a), last_g := (a \<and> \<not> a')\<rparr>;
             sh1 = (shared c)\<lparr>dragging := a'\<rparr>;
             newMemo = handler r sh1 s1;
             s2 = s1\<lparr>memo := (if newMemo \<noteq> JUndefined then newMemo else memo s1)\<rparr>;
             c1 = c\<lparr>drag := s2, shared := sh1, calls := calls c @ [(sh1, s1)]\<rparr>
         in (Some (sh1, s1), if \<not> a' then clean_drag c1 else c1)))"

text \<open>The generic payload of an event (\<open>getGenericPayload\<close>), without \<open>args\<close>.\<close>

record generic_payload =
  gp_lastEventType :: string
  gp_event :: pointer_event
  gp_timeStamp :: real
  gp_elapsedTime :: real
  gp_previous :: vec2

definition getGenericPayload :: "gesture_state \<Rightarrow> pointer_event \<Rightarrow> bool \<Rightarrow> generic_payload" where
  "getGenericPayload state e isStartEvent =
     \<lparr>gp_lastEventType = ev_type e, gp_event = e, gp_timeStamp = ev_timeStamp e,
      gp_elapsedTime = (if isStartEvent then 0 else ev_timeStamp e - startTime state),
      gp_previous = values_v state\<rparr>"

definition assignPayload :: "generic_payload \<Rightarrow> gesture_state \<Rightarrow> gesture_state" where
  "assignPayload p s =
     s\<lparr>u_lastEventType := Some (gp_lastEventType p), event := Some (gp_event p),
       timeStamp := gp_timeStamp p, elapsedTime := gp_elapsedTime p,
       previous := gp_previous p\<rparr>"

definition getStartGestureState :: "gesture_state \<Rightarrow> vec2 \<Rightarrow> pointer_event \<Rightarrow> gesture_state" where
  "getStartGestureState state vals e =
     getInitialState\<lparr>u_active := True, values_v := vals, initial := vals,
                      offset := offset state, lastOffset := offset state,
                      startTime := ev_timeStamp e\<rparr>"

section \<open>The drag recognizer\<close>

definition TAP_DISTANCE_THRESHOLD :: real where "TAP_DISTANCE_THRESHOLD = 3"
definition SWIPE_MAX_ELAPSED_TIME :: real where "SWIPE_MAX_ELAPSED_TIME = 220"

text \<open>A \<open>Vector2\<close> as the array the kinematics functions take, and back.\<close>

definition list_of_vec2 :: "vec2 \<Rightarrow> real list" where
  "list_of_vec2 v = [fst v, snd v]"

definition vec2_of_list :: "real list \<Rightarrow> vec2" where
  "vec2_of_list xs = (xs ! 0, xs ! 1)"

text \<open>
  Modelled from the spec: \<open>CoordinatesRecognizer\<close>, which \<open>DragRecognizer\<close> extends,
  is not among the sources. By the spec the raw displacement of a pointer gesture is
  the current position minus the initial pointer position.
\<close>

definition coordinatesInternalMovement :: "vec2 \<Rightarrow> gesture_state \<Rightarrow> vec2" where
  "coordinatesInternalMovement vals state = subV vals (initial state)"

text \<open>
  Modelled from the spec: \<open>getKinematics\<close> of \<open>CoordinatesRecognizer\<close> is not among
  the sources. By the spec a sample's partial state is the movement of \<open>getMovement\<close>
  and, unless the gesture is blocked, the kinematics computed from the movement, the
  delta and the time since the previous sample.
\<close>

definition getKinematics ::
  "recognizer \<Rightarrow> gesture_state \<Rightarrow> vec2 \<Rightarrow> pointer_event
   \<Rightarrow> gesture_state \<times> movement_state \<times> kinematics option" where
  "getKinematics r state vals e =
     (let res = getMovement r state vals;
          p = snd res
      in case m_rest p of
           None \<Rightarrow> (fst res, p, None)
         | Some q \<Rightarrow>
             (fst res, p,
              calculateAllKinematics (list_of_vec2 (r_movement q)) (list_of_vec2 (m_delta p))
                (ev_timeStamp e - timeStamp state)))"

definition assignKinematics :: "kinematics option \<Rightarrow> gesture_state \<Rightarrow> gesture_state" where
  "assignKinematics k s =
     (case k of
        None \<Rightarrow> s
      | Some k' \<Rightarrow> s\<lparr>velocities := vec2_of_list (k_velocities k'), velocity := k_velocity k',
                       distance := k_distance k',
                       direction := vec2_of_list (k_direction k')\<rparr>)"

definition dragShouldStart :: "recognizer \<Rightarrow> controller \<Rightarrow> bool" where
  "dragShouldStart r c = (recognizer_enabled r \<and> \<not> u_active (drag c))"

definition setListeners :: "controller \<Rightarrow> controller" where
  "setListeners c = c\<lparr>windowListeners := True\<rparr>"

text \<open>
  \<open>startDrag\<close>. The call \<open>this.getMovement(values, startState)\<close> passes a second
  argument, but \<open>getMovement\<close> has the one parameter \<open>values\<close> and reads
  \<open>this.state\<close>, which at that point is still the state before the start.
\<close>

definition startDrag :: "recognizer \<Rightarrow> controller \<Rightarrow> pointer_event \<Rightarrow> controller" where
  "startDrag r c e =
     (let vals = ev_values e;
          c1 = updateSharedState_event e c;
          startState =
            (assignPayload (getGenericPayload (drag c1) e True)
               (getStartGestureState (drag c1) vals e))\<lparr>u_pointerId := Some (pointerId e)\<rparr>;
          movementState = snd (getMovement r (drag c1) vals);
          c2 = c1\<lparr>drag := (assignMovement movementState startState)\<lparr>cancel := OnCancel\<rparr>\<rparr>
      in snd (fireGestureHandler r False c2))"

definition onDragStart :: "recognizer \<Rightarrow> controller \<Rightarrow> pointer_event \<Rightarrow> controller" where
  "onDragStart r c e =
     (if \<not> dragShouldStart r c then c
      else
        (let c1 = setListeners c;
             c2 = c1\<lparr>drag := (drag c1)\<lparr>u_pointerId := Some (pointerId e)\<rparr>\<rparr>
         in if delay (config r) > 0
            then setTimeout (delay (config r)) e
                   (c2\<lparr>drag := (drag c2)\<lparr>u_delayedEvent := True\<rparr>\<rparr>)
            else startDrag r c2 e))"

text \<open>The swipe of one axis, as \<open>onDragEnd\<close> computes it.\<close>

definition swipeAxis :: "real \<Rightarrow> real option \<Rightarrow> real \<Rightarrow> real \<Rightarrow> real \<Rightarrow> real \<Rightarrow> real" where
  "swipeAxis elapsed i v sv m sd =
     (if elapsed < SWIPE_MAX_ELAPSED_TIME
      then (if i \<noteq> None \<and> \<bar>v\<bar> > sv \<and> \<bar>m\<bar> > sd then sgn v else 0)
      else 0)"

text \<open>
  \<open>onDragEnd\<close> in two parts: the controller after line 173, where the end state, the
  tap and the swipe have been written, and the whole function, which then fires the
  handler.
\<close>

definition endFrame :: "recognizer \<Rightarrow> controller \<Rightarrow> pointer_event \<Rightarrow> controller" where
  "endFrame r c e =
     (let c1 = updateSharedState_up (c\<lparr>drag := (drag c)\<lparr>u_active := False\<rparr>\<rparr>);
          s = drag c1;
          isTap = u_isTap s;
          payload = getGenericPayload s e False;
          res = getMovement r s (values_v s);
          elapsed = gp_elapsedTime payload;
          sw = (swipeAxis elapsed (fst (u_intentional s)) (fst (velocities s))
                  (fst (swipeVelocity (config r))) (fst (movement s))
                  (fst (swipeDistance (config r))),
                swipeAxis elapsed (snd (u_intentional s)) (snd (velocities s))
                  (snd (swipeVelocity (config r))) (snd (movement s))
                  (snd (swipeDistance (config r))));
          s' = (assignMovement (snd res) (assignPayload payload (fst res)))
                 \<lparr>tap := isTap, swipe := sw\<rparr>
      in c1\<lparr>drag := s'\<rparr>)"

definition onDragEnd :: "recognizer \<Rightarrow> controller \<Rightarrow> pointer_event \<Rightarrow> controller" where
  "onDragEnd r c e =
     (if Some (pointerId e) \<noteq> u_pointerId (drag c) then c
      else
        (let c2 = endFrame r c e
         in snd (fireGestureHandler r (filterTaps (config r) \<and> u_isTap (drag c2)) c2)))"

definition onDragChange :: "recognizer \<Rightarrow> controller \<Rightarrow> pointer_event \<Rightarrow> controller" where
  "onDragChange r c e =
     (if canceled (drag c) then c
      else if Some (pointerId e) \<noteq> u_pointerId (drag c) then c
      else if \<not> u_active (drag c)
      then (if u_delayedEvent (drag c) then startDrag r (clearTimeout c) e else c)
      else if \<not> ev_down e then onDragEnd r c e
      else
        (let c1 = updateSharedState_event e c;
             vals = ev_values e;
             kin = getKinematics r (drag c1) vals e;
             state' = fst kin;
             genericPayload = getGenericPayload state' e False;
             realDistance = calculateDistance (list_of_vec2 (m_u_movement (fst (snd kin))));
             isTap = (if u_isTap state' \<and> realDistance \<ge> TAP_DISTANCE_THRESHOLD
                      then False else u_isTap state');
             s' = (assignKinematics (snd (snd kin))
                     (assignMovement (fst (snd kin)) (assignPayload genericPayload state')))
                    \<lparr>u_isTap := isTap, cancel := OnCancel\<rparr>
         in snd (fireGestureHandler r False (c1\<lparr>drag := s'\<rparr>))))"

text \<open>
  \<open>onCancel\<close> requests an animation frame, whose callback fires the handler.
\<close>

definition onCancel :: "controller \<Rightarrow> controller" where
  "onCancel c =
     (let c1 = c\<lparr>drag := (drag c)\<lparr>canceled := True, cancel := Noop, u_active := False\<rparr>\<rparr>;
          c2 = updateSharedState_up c1
      in c2\<lparr>animationFrames := Suc (animationFrames c2)\<rparr>)"

definition animationFrame :: "recognizer \<Rightarrow> controller \<Rightarrow> controller" where
  "animationFrame r c =
     (if animationFrames c = 0 then c
      else snd (fireGestureHandler r False (c\<lparr>animationFrames := animationFrames c - 1\<rparr>)))"

text \<open>The platform fires the pending timer \<open>h\<close>: its callback is \<open>startDrag\<close>.\<close>

definition timerFires :: "recognizer \<Rightarrow> nat \<Rightarrow> controller \<Rightarrow> controller" where
  "timerFires r h c =
     (case find (\<lambda>t. fst t = h) (timers c) of
        None \<Rightarrow> c
      | Some t \<Rightarrow> startDrag r (c\<lparr>timers := filter (\<lambda>t. fst t \<noteq> h) (timers c)\<rparr>) (snd (snd t)))"

text \<open>
  The drag recognizer over a config and a handler. \<open>DragRecognizer\<close> does not set
  \<open>debounced\<close>, so it has the base class's \<open>true\<close>. Its \<open>checkIntentionality\<close> is
  taken from the base class: the override of \<open>CoordinatesRecognizer\<close> for a
  configured axis or direction lock is not among the sources.
\<close>

definition dragRecognizer ::
  "bool \<Rightarrow> internal_config \<Rightarrow> (shared_state \<Rightarrow> gesture_state \<Rightarrow> js_value) \<Rightarrow> recognizer" where
  "dragRecognizer en cfg h =
     \<lparr>generic_enabled = en, config = cfg, debounced = True,
      checkIntentionality = checkIntentionality_base,
      getInternalMovement = coordinatesInternalMovement, handler = h\<rparr>"

text \<open>The options of a user who configures nothing (\<open>{}\<close>).\<close>

definition emptyDragConfig :: drag_config where
  "emptyDragConfig =
     \<lparr>c_threshold = None, c_rubberband = None, c_enabled = None,
      c_triggerAllEvents = None, c_initial = None, c_axis = None,
      c_lockDirection = None, c_bounds = None, c_swipeVelocity = None,
      c_swipeDistance = None, c_delay = None, c_filterTaps = None\<rparr>"

text \<open>The controller at construction: idle, nothing pending, no handler call yet.\<close>

definition initialController :: controller where
  "initialController =
     \<lparr>drag = getInitialState,
      shared = \<lparr>down = False, buttons = 0, touches = 0,
                modifiers = (False, False, False, False), dragging = False\<rparr>,
      timeouts = None, timers = [], next_timer = 0, windowListeners = False,
      animationFrames = 0, calls = []\<rparr>"

section \<open>Sessions\<close>

text \<open>
  A drag session: \<open>startDrag\<close> on the pointer-down event (at once, from the delay
  timer or from the first move of a delayed start), the samples that \<open>onDragChange\<close>
  receives, and \<open>onDragEnd\<close> on the release.
\<close>

definition dragSession ::
  "recognizer \<Rightarrow> controller \<Rightarrow> pointer_event \<Rightarrow> pointer_event list \<Rightarrow> pointer_event
   \<Rightarrow> controller" where
  "dragSession r c e0 es e1 = onDragEnd r (foldl (onDragChange r) (startDrag r c e0) es) e1"

text \<open>
  One sample of a session, as far as the movement goes:
  \<open>updateGestureState(this.getMovement(values))\<close>.
\<close>

definition movementSample :: "recognizer \<Rightarrow> gesture_state \<Rightarrow> vec2 \<Rightarrow> gesture_state" where
  "movementSample r s v = (let res = getMovement r s v in assignMovement (snd res) (fst res))"

text \<open>
  The movement of lines 145 to 148 in the \<open>getMovement(values)\<close> of \<open>onDragEnd\<close>, for
  the state \<open>s\<close> that \<open>onDragEnd\<close> reads: the session's final movement, before the
  rubberband and before \<open>_initial\<close> is added.
\<close>

definition endMovement :: "recognizer \<Rightarrow> gesture_state \<Rightarrow> vec2" where
  "endMovement r s =
     (let m = getInternalMovement r (values_v s) s
      in thresholdedMovement r
           (fst (checkIntentionality r (intentionalDisplacements r s m) m s)) m)"

definition sessionMovement ::
  "recognizer \<Rightarrow> controller \<Rightarrow> pointer_event \<Rightarrow> pointer_event list \<Rightarrow> vec2" where
  "sessionMovement r c e0 es =
     endMovement r ((drag (foldl (onDragChange r) (startDrag r c e0) es))\<lparr>u_active := False\<rparr>)"

text \<open>
  A sequence of sessions, each given by its pointer-down event, its samples and its
  release; the final movement of each session of the sequence; and a session that is
  completed by a release of its own pointer, all its samples coming from that pointer
  with a button down.
\<close>

type_synonym session = "pointer_event \<times> pointer_event list \<times> pointer_event"

fun dragSessions :: "recognizer \<Rightarrow> controller \<Rightarrow> session list \<Rightarrow> controller" where
  "dragSessions r c [] = c"
| "dragSessions r c ((e0, es, e1) # ss) = dragSessions r (dragSession r c e0 es e1) ss"

fun sessionMovements :: "recognizer \<Rightarrow> controller \<Rightarrow> session list \<Rightarrow> vec2 list" where
  "sessionMovements r c [] = []"
| "sessionMovements r c ((e0, es, e1) # ss) =
     sessionMovement r c e0 es # sessionMovements r (dragSession r c e0 es e1) ss"

fun sessionCompleted :: "session \<Rightarrow> bool" where
  "sessionCompleted (e0, es, e1) =
     (pointerId e1 = pointerId e0 \<and> (\<forall>e\<in>set es. pointerId e = pointerId e0 \<and> ev_down e))"

text \<open>
  The offset that \<open>onDragEnd\<close> leaves after each session in turn: the previous offset
  plus the session's final movement, through the rubberband at factor 0.
\<close>

fun accumulateOffset :: "recognizer \<Rightarrow> vec2 \<Rightarrow> vec2 list \<Rightarrow> vec2" where
  "accumulateOffset r off [] = off"
| "accumulateOffset r off (m # ms) =
     accumulateOffset r (computeRubberband r (addV m off) (0, 0)) ms"

section \<open>Concrete inputs\<close>

text \<open>A pointer event of a mouse: one button while the pointer is down.\<close>

definition mkEvent :: "int \<Rightarrow> string \<Rightarrow> real \<Rightarrow> vec2 \<Rightarrow> bool \<Rightarrow> pointer_event" where
  "mkEvent pid ty t v d =
     \<lparr>pointerId = pid, ev_type = ty, ev_timeStamp = t, ev_values = v, ev_down = d,
      ev_buttons = (if d then 1 else 0), ev_touches = 0,
      ev_modifiers = (False, False, False, False)\<rparr>"

text \<open>A handler that returns \<open>undefined\<close>.\<close>

definition noHandler :: "shared_state \<Rightarrow> gesture_state \<Rightarrow> js_value" where
  "noHandler sh s = JUndefined"

text \<open>The drag recognizer of a user who configures nothing.\<close>

definition defaultRecognizer :: recognizer where
  "defaultRecognizer = dragRecognizer True (getInternalDragOptions emptyDragConfig) noHandler"

definition quickSwipeStart :: controller where
  "quickSwipeStart =
     startDrag defaultRecognizer initialController (mkEvent 1 ''pointerdown'' 0 (0, 0) True)"

definition quickSwipeMove :: controller where
  "quickSwipeMove =
     onDragChange defaultRecognizer quickSwipeStart (mkEvent 1 ''pointermove'' 50 (80, 5) True)"

text \<open>
  A recognizer configured with \<open>swipeVelocity: -1\<close>, and a session on it: the pointer
  goes down at (0, 0), moves to (80, 0) after 50 ms and is sampled again at the same
  place 10 ms later.
\<close>

definition pausedSwipeRecognizer :: recognizer where
  "pausedSwipeRecognizer =
     dragRecognizer True
       (getInternalDragOptions (emptyDragConfig\<lparr>c_swipeVelocity := Some (Num (- 1))\<rparr>))
       noHandler"

definition pausedSwipeStart :: controller where
  "pausedSwipeStart =
     startDrag pausedSwipeRecognizer initialController (mkEvent 1 ''pointerdown'' 0 (0, 0) True)"

definition pausedSwipeMove :: controller where
  "pausedSwipeMove =
     onDragChange pausedSwipeRecognizer pausedSwipeStart
       (mkEvent 1 ''pointermove'' 50 (80, 0) True)"

definition pausedSwipePause :: controller where
  "pausedSwipePause =
     onDragChange pausedSwipeRecognizer pausedSwipeMove
       (mkEvent 1 ''pointermove'' 60 (80, 0) True)"

text \<open>
  A recognizer configured with \<open>filterTaps: true\<close>, and a session on it that has
  started: the pointer went down at (0, 0) and has not moved.
\<close>

definition tapRecognizer :: recognizer where
  "tapRecognizer =
     dragRecognizer True (getInternalDragOptions (emptyDragConfig\<lparr>c_filterTaps := Some True\<rparr>))
       noHandler"

definition tapStart :: controller where
  "tapStart = startDrag tapRecognizer initialController (mkEvent 1 ''pointerdown'' 0 (0, 0) True)"

text \<open>
  A recognizer configured with \<open>delay: true\<close> (180 ms), and the controller after a
  pointer-down at time 0 on it.
\<close>

definition delayRecognizer :: recognizer where
  "delayRecognizer =
     dragRecognizer True (getInternalDragOptions (emptyDragConfig\<lparr>c_delay := Some (Boolean True)\<rparr>))
       noHandler"

definition delayedDown :: controller where
  "delayedDown =
     onDragStart delayRecognizer initialController (mkEvent 1 ''pointerdown'' 0 (0, 0) True)"

text \<open>
  A session on \<open>delayRecognizer\<close> that was canceled: it started from a move during
  the delay, \<open>cancel\<close> was called and the animation frame ran. The next pointer-down
  on it, at time 1000, is again a delayed one.
\<close>

definition canceledSession :: controller where
  "canceledSession =
     animationFrame delayRecognizer
       (onCancel (onDragChange delayRecognizer delayedDown
          (mkEvent 1 ''pointermove'' 50 (10, 0) True)))"

definition canceledDown :: controller where
  "canceledDown =
     onDragStart delayRecognizer canceledSession (mkEvent 1 ''pointerdown'' 1000 (0, 0) True)"

text \<open>The session of \<open>tapStart\<close> after a move to (5, 1).\<close>

definition tapMove :: controller where
  "tapMove = onDragChange tapRecognizer tapStart (mkEvent 1 ''pointermove'' 10 (5, 1) True)"

text \<open>
  That session released at (5, 1), and a second session on the same recognizer: the
  pointer goes down at (0, 0) at time 100 and moves to (-5, 0).
\<close>

definition tapRelease :: controller where
  "tapRelease = onDragEnd tapRecognizer tapMove (mkEvent 1 ''pointerup'' 20 (5, 1) False)"

definition secondStart :: controller where
  "secondStart =
     onDragStart tapRecognizer tapRelease (mkEvent 1 ''pointerdown'' 100 (0, 0) True)"

definition secondMove :: controller where
  "secondMove =
     onDragChange tapRecognizer secondStart (mkEvent 1 ''pointermove'' 110 (- 5, 0) True)"

text \<open>
  A recognizer whose x axis is bounded to [0, 100], and two sessions on it: the first
  goes down at (0, 0) and is released at (150, 0), the second goes down at (200, 0)
  and is released at (150, 0).
\<close>

definition boundedRecognizer :: recognizer where
  "boundedRecognizer =
     dragRecognizer True
       (getInternalDragOptions
          (emptyDragConfig\<lparr>c_bounds :=
              Some \<lparr>left = Some 0, right = Some 100, top_b = None, bottom = None\<rparr>\<rparr>))
       noHandler"

definition firstSession :: session where
  "firstSession =
     (mkEvent 1 ''pointerdown'' 0 (0, 0) True,
      [mkEvent 1 ''pointermove'' 10 (150, 0) True],
      mkEvent 1 ''pointerup'' 20 (150, 0) False)"

definition secondSession :: session where
  "secondSession =
     (mkEvent 1 ''pointerdown'' 100 (200, 0) True,
      [mkEvent 1 ''pointermove'' 110 (150, 0) True],
      mkEvent 1 ''pointerup'' 120 (150, 0) False)"

text \<open>
  A recognizer configured with \<open>delay: true\<close> and \<open>filterTaps: true\<close>, and two
  presses on it. The first press starts from the timer, is sampled at (2.4, 1.8), which
  is 3 px from its origin with neither axis at the threshold of 3, and is released.
  The second press is released 50 ms after its pointer-down, before its timer fires.
\<close>

definition delayTapRecognizer :: recognizer where
  "delayTapRecognizer =
     dragRecognizer True
       (getInternalDragOptions
          (emptyDragConfig\<lparr>c_delay := Some (Boolean True), c_filterTaps := Some True\<rparr>))
       noHandler"

definition firstPress :: controller where
  "firstPress =
     onDragEnd delayTapRecognizer
       (onDragChange delayTapRecognizer
          (timerFires delayTapRecognizer 0
             (onDragStart delayTapRecognizer initialController
                (mkEvent 1 ''pointerdown'' 0 (0, 0) True)))
          (mkEvent 1 ''pointermove'' 200 (12 / 5, 9 / 5) True))
       (mkEvent 1 ''pointerup'' 300 (12 / 5, 9 / 5) False)"

definition secondPress :: controller where
  "secondPress =
     onDragEnd delayTapRecognizer
       (onDragStart delayTapRecognizer firstPress (mkEvent 1 ''pointerdown'' 1000 (0, 0) True))
       (mkEvent 1 ''pointerup'' 1050 (0, 0) False)"

section \<open>Properties of the kinematics library\<close>

lemma those_map_Some: "those (map (\<lambda>v. Some (f v)) xs) = Some (map f xs)"
  by (induction xs) simp_all

lemma js_div_nonzero: "b \<noteq> 0 \<Longrightarrow> js_div a b = Some (a / b)"
  by (simp add: js_div_def)

lemma those_js_div: "b \<noteq> 0 \<Longrightarrow> those (map (\<lambda>v. js_div v b) xs) = Some (map (\<lambda>v. v / b) xs)"
  by (simp add: js_div_def those_map_Some)

lemma calculateVelocity_total: "calculateVelocity ds dt l \<noteq> None"
  by (simp add: calculateVelocity_def js_div_def Let_def)

lemma calculateVelocities_total: "calculateVelocities ds dt \<noteq> None"
  by (simp add: calculateVelocities_def those_js_div)

lemma calculateDirection_total: "calculateDirection ds l \<noteq> None"
  by (cases l) (simp_all add: calculateDirection_def those_js_div Let_def)

lemma calculateAllKinematics_total: "calculateAllKinematics ms ds dt \<noteq> None"
  using calculateVelocity_total [of ds dt "hypot ds"]
        calculateVelocities_total [of ds dt]
        calculateDirection_total [of ds "Some (hypot ds)"]
  by (auto simp add: calculateAllKinematics_def Let_def split: option.splits)

text \<open>
  Claim C7. When the time since the previous sample is zero, the velocity is 0 and the
  velocities of a two-dimensional ds are (0, 0), also as \<open>calculateAllKinematics\<close>
  reports them; and no kinematics function ever divides by zero: for every input each
  of them returns a number, never the \<open>None\<close> of a division by zero.
\<close>

theorem velocity_zero_and_no_division_by_zero:
  "calculateVelocity ds 0 l = Some 0
   \<and> calculateVelocities [dx, dy] 0 = Some [0, 0]
   \<and> calculateVelocities ds 0 = Some (replicate (length ds) 0)
   \<and> (\<exists>k. calculateAllKinematics ms [dx, dy] 0 = Some k
          \<and> k_velocity k = 0 \<and> k_velocities k = [0, 0])
   \<and> (\<forall>d t l. calculateVelocity d t l \<noteq> None)
   \<and> (\<forall>d t. calculateVelocities d t \<noteq> None)
   \<and> (\<forall>d l. calculateDirection d l \<noteq> None)
   \<and> (\<forall>m d t. calculateAllKinematics m d t \<noteq> None)"
proof -
  have v0: "calculateVelocity ds 0 l = Some 0"
    by (simp add: calculateVelocity_def Let_def)
  have vs0: "calculateVelocities [dx, dy] 0 = Some [0, 0]"
    by (simp add: calculateVelocities_def)
  have vsn: "calculateVelocities ds 0 = Some (replicate (length ds) 0)"
    by (simp add: calculateVelocities_def)
  have v0': "calculateVelocity [dx, dy] 0 (hypot [dx, dy]) = Some 0"
    by (simp add: calculateVelocity_def Let_def)
  obtain d where d: "calculateDirection [dx, dy] (Some (hypot [dx, dy])) = Some d"
    using calculateDirection_total [of "[dx, dy]" "Some (hypot [dx, dy])"] by auto
  have k: "\<exists>k. calculateAllKinematics ms [dx, dy] 0 = Some k
          \<and> k_velocity k = 0 \<and> k_velocities k = [0, 0]"
    by (simp add: calculateAllKinematics_def Let_def vs0 v0' d)
  show ?thesis
    using v0 vs0 vsn k calculateVelocity_total calculateVelocities_total
          calculateDirection_total calculateAllKinematics_total
    by blast
qed

section \<open>Properties of the config resolver\<close>

text \<open>
  Claim C9. For every partial input, the resolver gives the documented defaults:
  \<open>rubberband\<close> resolves \<open>true\<close> to (0.15, 0.15), \<open>false\<close> to (0, 0), a number \<open>n\<close>
  to the vector (n, n) and a vector to itself; \<open>delay\<close> resolves \<open>true\<close> to 180,
  \<open>false\<close> to 0 and a number to itself; an absent \<open>swipeVelocity\<close> resolves to
  (0.5, 0.5) and an absent \<open>swipeDistance\<close> to (60, 60).
\<close>

theorem resolver_defaults:
  "rubberband (getInternalDragOptions (cfg\<lparr>c_rubberband := Some (Boolean True)\<rparr>)) = (0.15, 0.15)
   \<and> rubberband (getInternalDragOptions (cfg\<lparr>c_rubberband := Some (Boolean False)\<rparr>)) = (0, 0)
   \<and> rubberband (getInternalDragOptions (cfg\<lparr>c_rubberband := Some (Other (Num n))\<rparr>)) = (n, n)
   \<and> rubberband (getInternalDragOptions (cfg\<lparr>c_rubberband := Some (Other (Vec v))\<rparr>)) = v
   \<and> delay (getInternalDragOptions (cfg\<lparr>c_delay := Some (Boolean True)\<rparr>)) = 180
   \<and> delay (getInternalDragOptions (cfg\<lparr>c_delay := Some (Boolean False)\<rparr>)) = 0
   \<and> delay (getInternalDragOptions (cfg\<lparr>c_delay := Some (Other n)\<rparr>)) = n
   \<and> swipeVelocity (getInternalDragOptions (cfg\<lparr>c_swipeVelocity := None\<rparr>)) = (0.5, 0.5)
   \<and> swipeDistance (getInternalDragOptions (cfg\<lparr>c_swipeDistance := None\<rparr>)) = (60, 60)"
  by (simp add: getInternalDragOptions_def rubberband_normalizer_def delay_normalizer_def
        swipeVelocity_normalizer_def swipeDistance_normalizer_def ensureVector_def
        DEFAULT_RUBBERBAND_def DEFAULT_DRAG_DELAY_def DEFAULT_SWIPE_VELOCITY_def
        DEFAULT_SWIPE_DISTANCE_def)

section \<open>The handler's firing contract\<close>

lemma clean_drag_drag: "drag (clean_drag c) = (drag c)\<lparr>u_delayedEvent := False\<rparr>"
  by (simp add: clean_drag_def clean_base_def clearTimeout_def Let_def split: option.splits)

lemma clean_drag_calls: "calls (clean_drag c) = calls c"
  by (simp add: clean_drag_def clean_base_def clearTimeout_def Let_def split: option.splits)

text \<open>Firing the handler changes at most six fields of the gesture state.\<close>

lemma fireGestureHandler_drag:
  "\<exists>a f l m ua de. drag (snd (fireGestureHandler r b c)) =
     (drag c)\<lparr>active := a, first := f, last_g := l, memo := m, u_active := ua,
              u_delayedEvent := de\<rparr>"
proof -
  let ?P = "\<lambda>s. \<exists>a f l m ua de. s =
     (drag c)\<lparr>active := a, first := f, last_g := l, memo := m, u_active := ua,
              u_delayedEvent := de\<rparr>"
  have upd: "?P ((drag c)\<lparr>active := a, first := f, last_g := l, memo := m, u_active := ua,
              u_delayedEvent := de\<rparr>)" for a f l m ua de
    by blast
  have triv: "?P (drag c)"
    using upd [where a="active (drag c)" and f="first (drag c)" and l="last_g (drag c)"
        and m="memo (drag c)" and ua="u_active (drag c)" and de="u_delayedEvent (drag c)"]
    by simp
  have a1: "?P ((drag c)\<lparr>u_active := False, u_delayedEvent := False\<rparr>)"
    using upd [where a="active (drag c)" and f="first (drag c)" and l="last_g (drag c)"
        and m="memo (drag c)" and ua=False and de=False]
    by simp
  have a2: "?P ((drag c)\<lparr>active := a, first := f, last_g := l, memo := m\<rparr>)" for a f l m
    using upd [where a=a and f=f and l=l and m=m and ua="u_active (drag c)"
        and de="u_delayedEvent (drag c)"]
    by simp
  have a3: "?P ((drag c)\<lparr>active := a, first := f, last_g := l, memo := m,
       u_delayedEvent := False\<rparr>)" for a f l m
    using upd [where a=a and f=f and l=l and m=m and ua="u_active (drag c)" and de=False]
    by simp
  show ?thesis
    unfolding fireGestureHandler_def Let_def
    using triv a1 a2 a3 by (simp add: clean_drag_drag)
qed

lemma fireGestureHandler_keeps:
  "swipe (drag (snd (fireGestureHandler r b c))) = swipe (drag c)"
  "tap (drag (snd (fireGestureHandler r b c))) = tap (drag c)"
  "u_isTap (drag (snd (fireGestureHandler r b c))) = u_isTap (drag c)"
  "offset (drag (snd (fireGestureHandler r b c))) = offset (drag c)"
  "lastOffset (drag (snd (fireGestureHandler r b c))) = lastOffset (drag c)"
  "movement (drag (snd (fireGestureHandler r b c))) = movement (drag c)"
  "u_movement (drag (snd (fireGestureHandler r b c))) = u_movement (drag c)"
  "u_intentional (drag (snd (fireGestureHandler r b c))) = u_intentional (drag c)"
  "u_blocked (drag (snd (fireGestureHandler r b c))) = u_blocked (drag c)"
  "u_pointerId (drag (snd (fireGestureHandler r b c))) = u_pointerId (drag c)"
  "canceled (drag (snd (fireGestureHandler r b c))) = canceled (drag c)"
  "initial (drag (snd (fireGestureHandler r b c))) = initial (drag c)"
  "values_v (drag (snd (fireGestureHandler r b c))) = values_v (drag c)"
  "u_initial (drag (snd (fireGestureHandler r b c))) = u_initial (drag c)"
  "startTime (drag (snd (fireGestureHandler r b c))) = startTime (drag c)"
  "timeStamp (drag (snd (fireGestureHandler r b c))) = timeStamp (drag c)"
  "velocities (drag (snd (fireGestureHandler r b c))) = velocities (drag c)"
  using fireGestureHandler_drag [of r b c] by auto

text \<open>
  Claim C10. When \<open>fireGestureHandler\<close> is called with \<open>_blocked\<close> false, both
  components of \<open>_intentional\<close> false and no force flag, it returns \<open>null\<close> and leaves
  the whole controller as it was: the handler is not invoked (the log of its calls is
  unchanged), and \<open>active\<close>, \<open>first\<close>, \<open>last\<close>, \<open>memo\<close> and the shared flag
  \<open>dragging\<close> keep their values.
\<close>

theorem fireGestureHandler_not_intentional:
  "\<not> u_blocked (drag c) \<Longrightarrow> u_intentional (drag c) = (None, None) \<Longrightarrow>
   fireGestureHandler r False c = (None, c)"
  by (simp add: fireGestureHandler_def)

theorem fireGestureHandler_not_intentional_witness:
  "\<not> u_blocked (drag (initialController\<lparr>shared := (shared initialController)\<lparr>dragging := True\<rparr>\<rparr>))
   \<and> u_intentional (drag (initialController\<lparr>shared := (shared initialController)\<lparr>dragging := True\<rparr>\<rparr>))
       = (None, None)
   \<and> fireGestureHandler (dragRecognizer True (getInternalDragOptions emptyDragConfig) noHandler)
         False (initialController\<lparr>shared := (shared initialController)\<lparr>dragging := True\<rparr>\<rparr>)
       = (None, initialController\<lparr>shared := (shared initialController)\<lparr>dragging := True\<rparr>\<rparr>)"
  using fireGestureHandler_not_intentional
    [of "initialController\<lparr>shared := (shared initialController)\<lparr>dragging := True\<rparr>\<rparr>"
        "dragRecognizer True (getInternalDragOptions emptyDragConfig) noHandler"]
  by (simp add: initialController_def getInitialState_def)

section \<open>Stale events\<close>

text \<open>
  Claim C8. A drag-change or drag-end sample whose pointer identifier differs from the
  session's recorded \<open>_pointerId\<close> is ignored: the controller afterwards is the
  controller before, so the handler is not invoked and the drag state and the shared
  state are unchanged.
\<close>

theorem stale_pointer_ignored:
  "Some (pointerId e) \<noteq> u_pointerId (drag c) \<Longrightarrow>
   onDragChange r c e = c \<and> onDragEnd r c e = c"
  by (simp add: onDragChange_def onDragEnd_def)

theorem stale_pointer_ignored_witness:
  "Some (pointerId (mkEvent 2 ''pointermove'' 10 (5, 5) True))
     \<noteq> u_pointerId (drag (initialController\<lparr>drag :=
           getInitialState\<lparr>u_active := True, u_pointerId := Some 1\<rparr>\<rparr>))
   \<and> onDragChange (dragRecognizer True (getInternalDragOptions emptyDragConfig) noHandler)
       (initialController\<lparr>drag := getInitialState\<lparr>u_active := True, u_pointerId := Some 1\<rparr>\<rparr>)
       (mkEvent 2 ''pointermove'' 10 (5, 5) True)
     = initialController\<lparr>drag := getInitialState\<lparr>u_active := True, u_pointerId := Some 1\<rparr>\<rparr>
   \<and> onDragEnd (dragRecognizer True (getInternalDragOptions emptyDragConfig) noHandler)
       (initialController\<lparr>drag := getInitialState\<lparr>u_active := True, u_pointerId := Some 1\<rparr>\<rparr>)
       (mkEvent 2 ''pointermove'' 10 (5, 5) True)
     = initialController\<lparr>drag := getInitialState\<lparr>u_active := True, u_pointerId := Some 1\<rparr>\<rparr>"
  using stale_pointer_ignored
    [of "mkEvent 2 ''pointermove'' 10 (5, 5) True"
        "initialController\<lparr>drag := getInitialState\<lparr>u_active := True, u_pointerId := Some 1\<rparr>\<rparr>"
        "dragRecognizer True (getInternalDragOptions emptyDragConfig) noHandler"]
  by (simp add: mkEvent_def)

section \<open>Steps of a drag session\<close>

lemma fireGestureHandler_u_active:
  "u_active (drag (snd (fireGestureHandler r b c))) =
     (if u_blocked (drag c) \<and> \<not> debounced r then False else u_active (drag c))"
  by (simp add: fireGestureHandler_def Let_def clean_drag_drag)

lemma assignMovement_keeps:
  "swipe (assignMovement p s) = swipe s"
  "tap (assignMovement p s) = tap s"
  "u_isTap (assignMovement p s) = u_isTap s"
  "lastOffset (assignMovement p s) = lastOffset s"
  "u_pointerId (assignMovement p s) = u_pointerId s"
  "canceled (assignMovement p s) = canceled s"
  "initial (assignMovement p s) = initial s"
  "startTime (assignMovement p s) = startTime s"
  "timeStamp (assignMovement p s) = timeStamp s"
  "velocities (assignMovement p s) = velocities s"
  "u_active (assignMovement p s) = u_active s"
  "u_delayedEvent (assignMovement p s) = u_delayedEvent s"
  "u_intentional (assignMovement p s) = m_u_intentional p"
  "u_blocked (assignMovement p s) = m_u_blocked p"
  "u_movement (assignMovement p s) = m_u_movement p"
  by (simp_all add: assignMovement_def Let_def split: option.splits)

lemma assignKinematics_keeps:
  "swipe (assignKinematics k s) = swipe s"
  "tap (assignKinematics k s) = tap s"
  "u_isTap (assignKinematics k s) = u_isTap s"
  "offset (assignKinematics k s) = offset s"
  "lastOffset (assignKinematics k s) = lastOffset s"
  "movement (assignKinematics k s) = movement s"
  "u_pointerId (assignKinematics k s) = u_pointerId s"
  "canceled (assignKinematics k s) = canceled s"
  "initial (assignKinematics k s) = initial s"
  "values_v (assignKinematics k s) = values_v s"
  "u_initial (assignKinematics k s) = u_initial s"
  "startTime (assignKinematics k s) = startTime s"
  "timeStamp (assignKinematics k s) = timeStamp s"
  "u_active (assignKinematics k s) = u_active s"
  "u_delayedEvent (assignKinematics k s) = u_delayedEvent s"
  "u_intentional (assignKinematics k s) = u_intentional s"
  "u_blocked (assignKinematics k s) = u_blocked s"
  "u_movement (assignKinematics k s) = u_movement s"
  by (simp_all add: assignKinematics_def split: option.splits)

lemma getMovement_fst: "fst (getMovement r s v) =
    s\<lparr>u_initial := initialAtCrossing r s
        (fst (checkIntentionality r (intentionalDisplacements r s (getInternalMovement r v s))
               (getInternalMovement r v s) s))\<rparr>"
  by (simp add: getMovement_def Let_def)

lemma getMovement_snd_always:
  "m_u_movement (snd (getMovement r s v)) = getInternalMovement r v s"
  "m_u_intentional (snd (getMovement r s v)) =
     fst (checkIntentionality r (intentionalDisplacements r s (getInternalMovement r v s))
            (getInternalMovement r v s) s)"
  "m_u_blocked (snd (getMovement r s v)) =
     snd (checkIntentionality r (intentionalDisplacements r s (getInternalMovement r v s))
            (getInternalMovement r v s) s)"
  by (simp_all add: getMovement_def Let_def)

lemma getKinematics_parts:
  "fst (getKinematics r s v e) = fst (getMovement r s v)"
  "fst (snd (getKinematics r s v e)) = snd (getMovement r s v)"
  by (simp_all add: getKinematics_def Let_def split: option.splits)

lemma startDrag_fields:
  "u_isTap (drag (startDrag r c e))"
  "\<not> canceled (drag (startDrag r c e))"
  "u_pointerId (drag (startDrag r c e)) = Some (pointerId e)"
  "initial (drag (startDrag r c e)) = ev_values e"
  "lastOffset (drag (startDrag r c e)) = offset (drag c)"
  "startTime (drag (startDrag r c e)) = ev_timeStamp e"
  "timeStamp (drag (startDrag r c e)) = ev_timeStamp e"
  by (simp_all add: startDrag_def Let_def fireGestureHandler_keeps assignMovement_keeps
        assignPayload_def getStartGestureState_def getInitialState_def
        updateSharedState_event_def getGenericPayload_def)

lemma startDrag_u_active:
  "debounced r \<Longrightarrow> u_active (drag (startDrag r c e))"
  by (simp add: startDrag_def Let_def fireGestureHandler_u_active assignMovement_keeps
        assignPayload_def getStartGestureState_def getInitialState_def
        updateSharedState_event_def)

lemma onDragChange_sample:
  assumes "\<not> canceled (drag c)" "u_pointerId (drag c) = Some (pointerId e)"
    "u_active (drag c)" "ev_down e"
  shows "u_isTap (drag (onDragChange r c e)) =
           (u_isTap (drag c) \<and> \<not> calculateDistance (list_of_vec2
               (getInternalMovement r (ev_values e) (drag c))) \<ge> TAP_DISTANCE_THRESHOLD)"
    "\<not> canceled (drag (onDragChange r c e))"
    "u_pointerId (drag (onDragChange r c e)) = u_pointerId (drag c)"
    "initial (drag (onDragChange r c e)) = initial (drag c)"
    "lastOffset (drag (onDragChange r c e)) = lastOffset (drag c)"
    "startTime (drag (onDragChange r c e)) = startTime (drag c)"
    "timeStamp (drag (onDragChange r c e)) = ev_timeStamp e"
    "debounced r \<Longrightarrow> u_active (drag (onDragChange r c e))"
  using assms
  by (auto simp add: onDragChange_def Let_def fireGestureHandler_keeps fireGestureHandler_u_active
        assignMovement_keeps assignKinematics_keeps getKinematics_parts getMovement_fst
        getMovement_snd_always assignPayload_def updateSharedState_event_def
        getGenericPayload_def)

lemma hypot_pair: "hypot [x, 0] = \<bar>x\<bar>"
  by (simp add: hypot_def)

lemmas config_defs = getInternalDragOptions_def emptyDragConfig_def threshold_normalizer_def
  threshold_filterTaps_def rubberband_normalizer_def enabled_normalizer_def
  triggerAllEvents_normalizer_def initial_normalizer_def lockDirection_normalizer_def
  bounds_normalizer_def swipeVelocity_normalizer_def swipeDistance_normalizer_def
  delay_normalizer_def ensureVector_def ensureVector_fallback_def
  DEFAULT_SWIPE_VELOCITY_def DEFAULT_SWIPE_DISTANCE_def DEFAULT_RUBBERBAND_def
  DEFAULT_DRAG_DELAY_def

section \<open>Tap detection\<close>

lemma onDragEnd_tap:
  "Some (pointerId e) = u_pointerId (drag c) \<Longrightarrow>
   tap (drag (onDragEnd r c e)) = u_isTap (drag c)"
  by (simp add: onDragEnd_def endFrame_def Let_def fireGestureHandler_keeps updateSharedState_up_def)

lemma samples_isTap:
  assumes "debounced r" and "getInternalMovement r = coordinatesInternalMovement"
    and "\<forall>e\<in>set es. pointerId e = pid \<and> ev_down e"
    and "\<not> canceled (drag c)" "u_pointerId (drag c) = Some pid" "u_active (drag c)"
  shows "\<not> canceled (drag (foldl (onDragChange r) c es))
       \<and> u_pointerId (drag (foldl (onDragChange r) c es)) = Some pid
       \<and> u_active (drag (foldl (onDragChange r) c es))
       \<and> initial (drag (foldl (onDragChange r) c es)) = initial (drag c)
       \<and> u_isTap (drag (foldl (onDragChange r) c es)) =
           (u_isTap (drag c) \<and>
            (\<forall>e\<in>set es. calculateDistance (list_of_vec2
                (subV (ev_values e) (initial (drag c)))) < TAP_DISTANCE_THRESHOLD))"
  using assms(3-)
proof (induction es arbitrary: c)
  case Nil
  then show ?case by simp
next
  case (Cons e es)
  have e: "pointerId e = pid" "ev_down e" using Cons.prems(1) by simp_all
  have pid: "u_pointerId (drag c) = Some (pointerId e)" using Cons.prems(3) e by simp
  note step = onDragChange_sample [OF Cons.prems(2) pid Cons.prems(4) e(2), of r]
  have rest: "\<forall>e\<in>set es. pointerId e = pid \<and> ev_down e" using Cons.prems(1) by simp
  have pid': "u_pointerId (drag (onDragChange r c e)) = Some pid"
    using step(3) Cons.prems(3) by simp
  note ih = Cons.IH [OF rest step(2) pid' step(8) [OF assms(1)]]
  show ?case
    using ih step(1) step(4)
    by (auto simp add: assms(2) coordinatesInternalMovement_def)
qed

lemma session_tap:
  assumes "debounced r" and "getInternalMovement r = coordinatesInternalMovement"
    and "\<forall>e\<in>set es. pointerId e = pointerId e0 \<and> ev_down e"
    and "pointerId e1 = pointerId e0"
  shows "u_isTap (drag (foldl (onDragChange r) (startDrag r c e0) es)) =
           (\<forall>e\<in>set es. calculateDistance (list_of_vec2
                (subV (ev_values e) (ev_values e0))) < 3)"
    and "tap (drag (dragSession r c e0 es e1)) =
           (\<forall>e\<in>set es. calculateDistance (list_of_vec2
                (subV (ev_values e) (ev_values e0))) < 3)"
proof -
  note inv = samples_isTap [OF assms(1) assms(2) assms(3) startDrag_fields(2)
      startDrag_fields(3) startDrag_u_active [OF assms(1)], of c]
  show a: "u_isTap (drag (foldl (onDragChange r) (startDrag r c e0) es)) =
           (\<forall>e\<in>set es. calculateDistance (list_of_vec2
                (subV (ev_values e) (ev_values e0))) < 3)"
    using inv by (simp add: startDrag_fields TAP_DISTANCE_THRESHOLD_def)
  have "Some (pointerId e1) = u_pointerId (drag (foldl (onDragChange r) (startDrag r c e0) es))"
    using inv assms(4) by simp
  from onDragEnd_tap [OF this, of r] a
  show "tap (drag (dragSession r c e0 es e1)) =
           (\<forall>e\<in>set es. calculateDistance (list_of_vec2
                (subV (ev_values e) (ev_values e0))) < 3)"
    by (simp add: dragSession_def)
qed

text \<open>
  Claim C5, as amended. In a drag session whose samples come from the session's
  pointer with a button down, the tap flag after any number of samples, and the
  \<open>tap\<close> the session reports at its end, are true exactly when the true distance from
  the start stayed strictly below 3 px on every sample: a sample at 3 px or more clears
  the flag, and it stays cleared for the rest of the session.
\<close>

theorem tap_iff_below_threshold:
  assumes "debounced r" and "getInternalMovement r = coordinatesInternalMovement"
    and "\<forall>e\<in>set es. pointerId e = pointerId e0 \<and> ev_down e"
    and "pointerId e1 = pointerId e0"
  shows "u_isTap (drag (foldl (onDragChange r) (startDrag r c e0) es)) =
           (\<forall>e\<in>set es. calculateDistance (list_of_vec2
                (subV (ev_values e) (ev_values e0))) < 3)
       \<and> tap (drag (dragSession r c e0 es e1)) =
           (\<forall>e\<in>set es. calculateDistance (list_of_vec2
                (subV (ev_values e) (ev_values e0))) < 3)"
  using session_tap [OF assms] by simp

theorem tap_iff_below_threshold_witness:
  "debounced (dragRecognizer True (getInternalDragOptions emptyDragConfig) noHandler)
   \<and> getInternalMovement (dragRecognizer True (getInternalDragOptions emptyDragConfig) noHandler)
       = coordinatesInternalMovement
   \<and> pointerId (mkEvent 1 ''pointermove'' 10 (1, 0) True)
       = pointerId (mkEvent 1 ''pointerdown'' 0 (0, 0) True)
   \<and> ev_down (mkEvent 1 ''pointermove'' 10 (1, 0) True)
   \<and> pointerId (mkEvent 1 ''pointerup'' 20 (1, 0) False)
       = pointerId (mkEvent 1 ''pointerdown'' 0 (0, 0) True)
   \<and> tap (drag (dragSession
         (dragRecognizer True (getInternalDragOptions emptyDragConfig) noHandler)
         initialController (mkEvent 1 ''pointerdown'' 0 (0, 0) True)
         [mkEvent 1 ''pointermove'' 10 (1, 0) True]
         (mkEvent 1 ''pointerup'' 20 (1, 0) False)))"
proof -
  have h1: "debounced (dragRecognizer True (getInternalDragOptions emptyDragConfig) noHandler)"
    by (simp add: dragRecognizer_def)
  have h2: "getInternalMovement
      (dragRecognizer True (getInternalDragOptions emptyDragConfig) noHandler)
       = coordinatesInternalMovement"
    by (simp add: dragRecognizer_def)
  have h3: "\<forall>e\<in>set [mkEvent 1 ''pointermove'' 10 (1, 0) True].
         pointerId e = pointerId (mkEvent 1 ''pointerdown'' 0 (0, 0) True) \<and> ev_down e"
    by (simp add: mkEvent_def)
  have h4: "pointerId (mkEvent 1 ''pointerup'' 20 (1, 0) False)
       = pointerId (mkEvent 1 ''pointerdown'' 0 (0, 0) True)"
    by (simp add: mkEvent_def)
  have d: "calculateDistance (list_of_vec2 (subV (ev_values (mkEvent 1 ''pointermove'' 10 (1, 0) True))
      (ev_values (mkEvent 1 ''pointerdown'' 0 (0, 0) True)))) = 1"
    by (simp add: mkEvent_def subV_def list_of_vec2_def calculateDistance_def hypot_pair)
  have t: "tap (drag (dragSession
         (dragRecognizer True (getInternalDragOptions emptyDragConfig) noHandler)
         initialController (mkEvent 1 ''pointerdown'' 0 (0, 0) True)
         [mkEvent 1 ''pointermove'' 10 (1, 0) True]
         (mkEvent 1 ''pointerup'' 20 (1, 0) False)))"
    using tap_iff_below_threshold [OF h1 h2 h3 h4, of initialController] d by simp
  have h3': "pointerId (mkEvent 1 ''pointermove'' 10 (1, 0) True)
       = pointerId (mkEvent 1 ''pointerdown'' 0 (0, 0) True)"
    "ev_down (mkEvent 1 ''pointermove'' 10 (1, 0) True)"
    by (simp_all add: mkEvent_def)
  show ?thesis
    by (intro conjI h1 h2 h3' h4 t)
qed

text \<open>
  The claim as stated fails at a distance of exactly 3 px: the distance never exceeds
  3 px, and the session reports \<open>tap = false\<close>.
\<close>

theorem tap_at_three_pixels_counterexample:
  "\<not> calculateDistance (list_of_vec2 (subV (ev_values (mkEvent 1 ''pointermove'' 10 (3, 0) True))
          (ev_values (mkEvent 1 ''pointerdown'' 0 (0, 0) True)))) > 3
   \<and> \<not> tap (drag (dragSession
         (dragRecognizer True (getInternalDragOptions emptyDragConfig) noHandler)
         initialController (mkEvent 1 ''pointerdown'' 0 (0, 0) True)
         [mkEvent 1 ''pointermove'' 10 (3, 0) True]
         (mkEvent 1 ''pointerup'' 20 (3, 0) False)))"
proof -
  have h1: "debounced (dragRecognizer True (getInternalDragOptions emptyDragConfig) noHandler)"
    by (simp add: dragRecognizer_def)
  have h2: "getInternalMovement
      (dragRecognizer True (getInternalDragOptions emptyDragConfig) noHandler)
       = coordinatesInternalMovement"
    by (simp add: dragRecognizer_def)
  have h3: "\<forall>e\<in>set [mkEvent 1 ''pointermove'' 10 (3, 0) True].
         pointerId e = pointerId (mkEvent 1 ''pointerdown'' 0 (0, 0) True) \<and> ev_down e"
    by (simp add: mkEvent_def)
  have h4: "pointerId (mkEvent 1 ''pointerup'' 20 (3, 0) False)
       = pointerId (mkEvent 1 ''pointerdown'' 0 (0, 0) True)"
    by (simp add: mkEvent_def)
  have d: "calculateDistance (list_of_vec2 (subV (ev_values (mkEvent 1 ''pointermove'' 10 (3, 0) True))
      (ev_values (mkEvent 1 ''pointerdown'' 0 (0, 0) True)))) = 3"
    by (simp add: mkEvent_def subV_def list_of_vec2_def calculateDistance_def hypot_pair)
  show ?thesis
    using session_tap(2) [OF h1 h2 h3 h4, of initialController] d
    by simp
qed

section \<open>Steps of a session when the recognizer does not block\<close>

lemma getMovement_base:
  assumes "checkIntentionality r = checkIntentionality_base"
  shows "getMovement r s v =
    (s\<lparr>u_initial := initialAtCrossing r s
          (intentionalDisplacements r s (getInternalMovement r v s))\<rparr>,
     \<lparr>m_u_intentional = intentionalDisplacements r s (getInternalMovement r v s),
      m_u_blocked = False,
      m_u_movement = getInternalMovement r v s,
      m_delta = subV (computeRubberband r
           (addV (thresholdedMovement r
                    (intentionalDisplacements r s (getInternalMovement r v s))
                    (getInternalMovement r v s))
                 (initialAtCrossing r s
                    (intentionalDisplacements r s (getInternalMovement r v s))))
           (if u_active s then rubberband (config r) else (0, 0))) (movement s),
      m_rest = Some
        \<lparr>r_u_initial = initialAtCrossing r s
           (intentionalDisplacements r s (getInternalMovement r v s)),
         r_movement = computeRubberband r
           (addV (thresholdedMovement r
                    (intentionalDisplacements r s (getInternalMovement r v s))
                    (getInternalMovement r v s))
                 (initialAtCrossing r s
                    (intentionalDisplacements r s (getInternalMovement r v s))))
           (if u_active s then rubberband (config r) else (0, 0)),
         r_values = v,
         r_offset = computeRubberband r
           (addV (thresholdedMovement r
                    (intentionalDisplacements r s (getInternalMovement r v s))
                    (getInternalMovement r v s))
                 (lastOffset s))
           (if u_active s then rubberband (config r) else (0, 0))\<rparr>\<rparr>)"
  by (simp add: getMovement_def Let_def assms checkIntentionality_base_def)

lemma assignMovement_rest:
  "m_rest p = Some q \<Longrightarrow>
   assignMovement p s = s\<lparr>u_intentional := m_u_intentional p, u_blocked := m_u_blocked p,
       u_movement := m_u_movement p, delta := m_delta p, u_initial := r_u_initial q,
       movement := r_movement q, values_v := r_values q, offset := r_offset q\<rparr>"
  by (simp add: assignMovement_def Let_def)

lemma startDrag_base:
  fixes r c e
  defines "m \<equiv> getInternalMovement r (ev_values e) (drag c)"
  defines "i \<equiv> intentionalDisplacements r (drag c) m"
  defines "rb \<equiv> (if u_active (drag c) then rubberband (config r) else (0, 0))"
  assumes chk: "checkIntentionality r = checkIntentionality_base"
  shows "u_intentional (drag (startDrag r c e)) = i"
    and "\<not> u_blocked (drag (startDrag r c e))"
    and "values_v (drag (startDrag r c e)) = ev_values e"
    and "u_initial (drag (startDrag r c e)) = initialAtCrossing r (drag c) i"
    and "movement (drag (startDrag r c e)) =
           computeRubberband r (addV (thresholdedMovement r i m) (initialAtCrossing r (drag c) i)) rb"
    and "offset (drag (startDrag r c e)) =
           computeRubberband r (addV (thresholdedMovement r i m) (lastOffset (drag c))) rb"
    and "velocities (drag (startDrag r c e)) = (0, 0)"
    and "u_active (drag (startDrag r c e))"
  unfolding m_def i_def rb_def
  by (simp_all add: startDrag_def Let_def fireGestureHandler_keeps fireGestureHandler_u_active
        getMovement_base [OF chk] assignMovement_rest
        assignPayload_def getStartGestureState_def getInitialState_def
        updateSharedState_event_def getGenericPayload_def)

lemma calculateAllKinematics_velocities:
  "\<exists>k. calculateAllKinematics mv [dx, dy] dt = Some k
       \<and> k_velocities k = (if dt \<noteq> 0 then [dx / dt, dy / dt] else [0, 0])"
proof -
  obtain v where v: "calculateVelocity [dx, dy] dt (hypot [dx, dy]) = Some v"
    using calculateVelocity_total [of "[dx, dy]" dt "hypot [dx, dy]"] by auto
  obtain d where d: "calculateDirection [dx, dy] (Some (hypot [dx, dy])) = Some d"
    using calculateDirection_total [of "[dx, dy]" "Some (hypot [dx, dy])"] by auto
  have vs: "calculateVelocities [dx, dy] dt =
      Some (if dt \<noteq> 0 then [dx / dt, dy / dt] else [0, 0])"
    by (simp add: calculateVelocities_def js_div_def)
  show ?thesis
    by (simp add: calculateAllKinematics_def Let_def v d vs)
qed

lemma assignKinematics_velocities:
  "velocities (assignKinematics (calculateAllKinematics mv (list_of_vec2 d) dt) s) =
     (if dt \<noteq> 0 then (fst d / dt, snd d / dt) else (0, 0))"
proof -
  obtain k where k: "calculateAllKinematics mv [fst d, snd d] dt = Some k"
    "k_velocities k = (if dt \<noteq> 0 then [fst d / dt, snd d / dt] else [0, 0])"
    using calculateAllKinematics_velocities [of mv "fst d" "snd d" dt] by blast
  show ?thesis
    by (simp add: list_of_vec2_def k assignKinematics_def vec2_of_list_def)
qed

lemma getKinematics_base:
  assumes chk: "checkIntentionality r = checkIntentionality_base"
  shows "snd (snd (getKinematics r s v e)) =
     calculateAllKinematics
       (list_of_vec2 (computeRubberband r
           (addV (thresholdedMovement r
                    (intentionalDisplacements r s (getInternalMovement r v s))
                    (getInternalMovement r v s))
                 (initialAtCrossing r s
                    (intentionalDisplacements r s (getInternalMovement r v s))))
           (if u_active s then rubberband (config r) else (0, 0))))
       (list_of_vec2 (subV (computeRubberband r
           (addV (thresholdedMovement r
                    (intentionalDisplacements r s (getInternalMovement r v s))
                    (getInternalMovement r v s))
                 (initialAtCrossing r s
                    (intentionalDisplacements r s (getInternalMovement r v s))))
           (if u_active s then rubberband (config r) else (0, 0))) (movement s)))
       (ev_timeStamp e - timeStamp s)"
  by (simp add: getKinematics_def Let_def getMovement_base [OF chk])

lemma onDragChange_base:
  fixes r c e
  defines "m \<equiv> getInternalMovement r (ev_values e) (drag c)"
  defines "i \<equiv> intentionalDisplacements r (drag c) m"
  defines "mv \<equiv> computeRubberband r
      (addV (thresholdedMovement r i m) (initialAtCrossing r (drag c) i)) (rubberband (config r))"
  defines "dt \<equiv> ev_timeStamp e - timeStamp (drag c)"
  assumes chk: "checkIntentionality r = checkIntentionality_base"
    and main: "\<not> canceled (drag c)" "u_pointerId (drag c) = Some (pointerId e)"
      "u_active (drag c)" "ev_down e"
  shows "u_intentional (drag (onDragChange r c e)) = i"
    and "\<not> u_blocked (drag (onDragChange r c e))"
    and "values_v (drag (onDragChange r c e)) = ev_values e"
    and "u_initial (drag (onDragChange r c e)) = initialAtCrossing r (drag c) i"
    and "movement (drag (onDragChange r c e)) = mv"
    and "offset (drag (onDragChange r c e)) =
           computeRubberband r (addV (thresholdedMovement r i m) (lastOffset (drag c)))
             (rubberband (config r))"
    and "velocities (drag (onDragChange r c e)) =
           (if dt \<noteq> 0 then (fst (subV mv (movement (drag c))) / dt,
                               snd (subV mv (movement (drag c))) / dt) else (0, 0))"
    and "u_active (drag (onDragChange r c e))"
  using main unfolding m_def i_def mv_def dt_def
  by (simp_all add: onDragChange_def Let_def fireGestureHandler_keeps fireGestureHandler_u_active
        getKinematics_parts getKinematics_base [OF chk] getMovement_base [OF chk]
        assignMovement_rest assignKinematics_keeps assignKinematics_velocities
        assignPayload_def updateSharedState_event_def getGenericPayload_def)

lemma onDragEnd_base:
  fixes r c e
  defines "s \<equiv> (drag c)\<lparr>u_active := False\<rparr>"
  defines "m \<equiv> getInternalMovement r (values_v (drag c)) s"
  defines "i \<equiv> intentionalDisplacements r s m"
  assumes chk: "checkIntentionality r = checkIntentionality_base"
    and pid: "Some (pointerId e) = u_pointerId (drag c)"
  shows "u_intentional (drag (onDragEnd r c e)) = i"
    and "\<not> u_blocked (drag (onDragEnd r c e))"
    and "values_v (drag (onDragEnd r c e)) = values_v (drag c)"
    and "u_initial (drag (onDragEnd r c e)) = initialAtCrossing r s i"
    and "movement (drag (onDragEnd r c e)) =
           computeRubberband r (addV (thresholdedMovement r i m) (initialAtCrossing r s i)) (0, 0)"
    and "offset (drag (onDragEnd r c e)) =
           computeRubberband r (addV (thresholdedMovement r i m) (lastOffset (drag c))) (0, 0)"
    and "velocities (drag (onDragEnd r c e)) = velocities (drag c)"
    and "\<not> u_active (drag (onDragEnd r c e))"
    and "lastOffset (drag (onDragEnd r c e)) = lastOffset (drag c)"
    and "initial (drag (onDragEnd r c e)) = initial (drag c)"
    and "u_pointerId (drag (onDragEnd r c e)) = u_pointerId (drag c)"
    and "canceled (drag (onDragEnd r c e)) = canceled (drag c)"
    and "startTime (drag (onDragEnd r c e)) = startTime (drag c)"
    and "tap (drag (onDragEnd r c e)) = u_isTap (drag c)"
    and "u_isTap (drag (onDragEnd r c e)) = u_isTap (drag c)"
  using pid unfolding s_def m_def i_def
  by (simp_all add: onDragEnd_def endFrame_def Let_def fireGestureHandler_keeps fireGestureHandler_u_active
        getMovement_base [OF chk] assignMovement_rest
        assignPayload_def updateSharedState_up_def getGenericPayload_def)

section \<open>Evaluating concrete sessions\<close>

lemmas movement_defs = intentionalDisplacements_def getIntentionalDisplacement_def
  initialAtCrossing_def thresholdedMovement_def computeRubberband_def
  rubberbandIfOutOfBounds_def minMax_def addV_def subV_def coordinatesInternalMovement_def

lemma mkEvent_fields:
  "pointerId (mkEvent pid ty t v d) = pid"
  "ev_timeStamp (mkEvent pid ty t v d) = t"
  "ev_values (mkEvent pid ty t v d) = v"
  "ev_down (mkEvent pid ty t v d) = d"
  by (simp_all add: mkEvent_def)

lemma pausedSwipeRecognizer_fields:
  "checkIntentionality pausedSwipeRecognizer = checkIntentionality_base"
  "getInternalMovement pausedSwipeRecognizer = coordinatesInternalMovement"
  "debounced pausedSwipeRecognizer"
  "threshold (config pausedSwipeRecognizer) = (0, 0)"
  "rubberband (config pausedSwipeRecognizer) = (0, 0)"
  "bounds (config pausedSwipeRecognizer) = ((None, None), (None, None))"
  "cfg_initial (config pausedSwipeRecognizer) = (0, 0)"
  "swipeVelocity (config pausedSwipeRecognizer) = (- 1, - 1)"
  "swipeDistance (config pausedSwipeRecognizer) = (60, 60)"
  by (simp_all add: pausedSwipeRecognizer_def dragRecognizer_def config_defs)

lemma initialController_fields:
  "u_intentional (drag initialController) = (None, None)"
  "u_initial (drag initialController) = (0, 0)"
  "initial (drag initialController) = (0, 0)"
  "lastOffset (drag initialController) = (0, 0)"
  "offset (drag initialController) = (0, 0)"
  "movement (drag initialController) = (0, 0)"
  "\<not> u_active (drag initialController)"
  "timeStamp (drag initialController) = 0"
  by (simp_all add: initialController_def getInitialState_def)

lemma pausedSwipeStart_fields:
  "\<not> canceled (drag pausedSwipeStart)"
  "u_pointerId (drag pausedSwipeStart) = Some 1"
  "u_active (drag pausedSwipeStart)"
  "initial (drag pausedSwipeStart) = (0, 0)"
  "lastOffset (drag pausedSwipeStart) = (0, 0)"
  "startTime (drag pausedSwipeStart) = 0"
  "timeStamp (drag pausedSwipeStart) = 0"
  "u_intentional (drag pausedSwipeStart) = (Some 0, Some 0)"
  "u_initial (drag pausedSwipeStart) = (0, 0)"
  "movement (drag pausedSwipeStart) = (0, 0)"
  unfolding pausedSwipeStart_def
  by (simp_all add: startDrag_fields startDrag_base [OF pausedSwipeRecognizer_fields(1)]
        pausedSwipeRecognizer_fields initialController_fields movement_defs mkEvent_fields)

lemma pausedSwipeMove_fields:
  "\<not> canceled (drag pausedSwipeMove)"
  "u_pointerId (drag pausedSwipeMove) = Some 1"
  "u_active (drag pausedSwipeMove)"
  "initial (drag pausedSwipeMove) = (0, 0)"
  "lastOffset (drag pausedSwipeMove) = (0, 0)"
  "startTime (drag pausedSwipeMove) = 0"
  "timeStamp (drag pausedSwipeMove) = 50"
  "u_intentional (drag pausedSwipeMove) = (Some 0, Some 0)"
  "u_initial (drag pausedSwipeMove) = (0, 0)"
  "movement (drag pausedSwipeMove) = (80, 0)"
proof -
  have main: "\<not> canceled (drag pausedSwipeStart)"
    "u_pointerId (drag pausedSwipeStart) = Some (pointerId (mkEvent 1 ''pointermove'' 50 (80, 0) True))"
    "u_active (drag pausedSwipeStart)" "ev_down (mkEvent 1 ''pointermove'' 50 (80, 0) True)"
    by (simp_all add: pausedSwipeStart_fields mkEvent_fields)
  note a = onDragChange_sample [OF main, of pausedSwipeRecognizer]
  note b = onDragChange_base [OF pausedSwipeRecognizer_fields(1) main]
  show "\<not> canceled (drag pausedSwipeMove)"
    "u_pointerId (drag pausedSwipeMove) = Some 1"
    "u_active (drag pausedSwipeMove)"
    "initial (drag pausedSwipeMove) = (0, 0)"
    "lastOffset (drag pausedSwipeMove) = (0, 0)"
    "startTime (drag pausedSwipeMove) = 0"
    "timeStamp (drag pausedSwipeMove) = 50"
    "u_intentional (drag pausedSwipeMove) = (Some 0, Some 0)"
    "u_initial (drag pausedSwipeMove) = (0, 0)"
    "movement (drag pausedSwipeMove) = (80, 0)"
    unfolding pausedSwipeMove_def
    by (simp_all add: a b pausedSwipeRecognizer_fields pausedSwipeStart_fields
          movement_defs mkEvent_fields)
qed

lemma pausedSwipePause_fields:
  "u_pointerId (drag pausedSwipePause) = Some 1"
  "startTime (drag pausedSwipePause) = 0"
  "u_intentional (drag pausedSwipePause) = (Some 0, Some 0)"
  "velocities (drag pausedSwipePause) = (0, 0)"
  "movement (drag pausedSwipePause) = (80, 0)"
proof -
  have main: "\<not> canceled (drag pausedSwipeMove)"
    "u_pointerId (drag pausedSwipeMove) = Some (pointerId (mkEvent 1 ''pointermove'' 60 (80, 0) True))"
    "u_active (drag pausedSwipeMove)" "ev_down (mkEvent 1 ''pointermove'' 60 (80, 0) True)"
    by (simp_all add: pausedSwipeMove_fields mkEvent_fields)
  note a = onDragChange_sample [OF main, of pausedSwipeRecognizer]
  note b = onDragChange_base [OF pausedSwipeRecognizer_fields(1) main]
  show "u_pointerId (drag pausedSwipePause) = Some 1"
    "startTime (drag pausedSwipePause) = 0"
    "u_intentional (drag pausedSwipePause) = (Some 0, Some 0)"
    "velocities (drag pausedSwipePause) = (0, 0)"
    "movement (drag pausedSwipePause) = (80, 0)"
    unfolding pausedSwipePause_def
    by (simp_all add: a b pausedSwipeRecognizer_fields pausedSwipeMove_fields
          movement_defs mkEvent_fields)
qed

lemma defaultRecognizer_fields:
  "checkIntentionality defaultRecognizer = checkIntentionality_base"
  "getInternalMovement defaultRecognizer = coordinatesInternalMovement"
  "debounced defaultRecognizer"
  "threshold (config defaultRecognizer) = (0, 0)"
  "rubberband (config defaultRecognizer) = (0, 0)"
  "bounds (config defaultRecognizer) = ((None, None), (None, None))"
  "cfg_initial (config defaultRecognizer) = (0, 0)"
  "swipeVelocity (config defaultRecognizer) = (1 / 2, 1 / 2)"
  "swipeDistance (config defaultRecognizer) = (60, 60)"
  "\<not> filterTaps (config defaultRecognizer)"
  "delay (config defaultRecognizer) = 0"
  by (simp_all add: defaultRecognizer_def dragRecognizer_def config_defs)

lemma quickSwipeStart_fields:
  "\<not> canceled (drag quickSwipeStart)"
  "u_pointerId (drag quickSwipeStart) = Some 1"
  "u_active (drag quickSwipeStart)"
  "initial (drag quickSwipeStart) = (0, 0)"
  "lastOffset (drag quickSwipeStart) = (0, 0)"
  "startTime (drag quickSwipeStart) = 0"
  "timeStamp (drag quickSwipeStart) = 0"
  "u_intentional (drag quickSwipeStart) = (Some 0, Some 0)"
  "u_initial (drag quickSwipeStart) = (0, 0)"
  "movement (drag quickSwipeStart) = (0, 0)"
  unfolding quickSwipeStart_def
  by (simp_all add: startDrag_fields startDrag_base [OF defaultRecognizer_fields(1)]
        defaultRecognizer_fields initialController_fields movement_defs mkEvent_fields)

lemma quickSwipeMove_fields:
  "u_pointerId (drag quickSwipeMove) = Some 1"
  "startTime (drag quickSwipeMove) = 0"
  "u_intentional (drag quickSwipeMove) = (Some 0, Some 0)"
  "velocities (drag quickSwipeMove) = (8 / 5, 1 / 10)"
  "movement (drag quickSwipeMove) = (80, 5)"
proof -
  have main: "\<not> canceled (drag quickSwipeStart)"
    "u_pointerId (drag quickSwipeStart) = Some (pointerId (mkEvent 1 ''pointermove'' 50 (80, 5) True))"
    "u_active (drag quickSwipeStart)" "ev_down (mkEvent 1 ''pointermove'' 50 (80, 5) True)"
    by (simp_all add: quickSwipeStart_fields mkEvent_fields)
  note a = onDragChange_sample [OF main, of defaultRecognizer]
  note b = onDragChange_base [OF defaultRecognizer_fields(1) main]
  show "u_pointerId (drag quickSwipeMove) = Some 1"
    "startTime (drag quickSwipeMove) = 0"
    "u_intentional (drag quickSwipeMove) = (Some 0, Some 0)"
    "velocities (drag quickSwipeMove) = (8 / 5, 1 / 10)"
    "movement (drag quickSwipeMove) = (80, 5)"
    unfolding quickSwipeMove_def
    by (simp_all add: a b defaultRecognizer_fields quickSwipeStart_fields
          movement_defs mkEvent_fields)
qed

section \<open>Swipe detection\<close>

lemma onDragEnd_swipe:
  assumes "Some (pointerId e) = u_pointerId (drag c)"
  shows "swipe (drag (onDragEnd r c e)) =
    (swipeAxis (ev_timeStamp e - startTime (drag c)) (fst (u_intentional (drag c)))
       (fst (velocities (drag c))) (fst (swipeVelocity (config r)))
       (fst (movement (drag c))) (fst (swipeDistance (config r))),
     swipeAxis (ev_timeStamp e - startTime (drag c)) (snd (u_intentional (drag c)))
       (snd (velocities (drag c))) (snd (swipeVelocity (config r)))
       (snd (movement (drag c))) (snd (swipeDistance (config r))))"
  using assms
  by (simp add: onDragEnd_def endFrame_def Let_def fireGestureHandler_keeps updateSharedState_up_def
        getGenericPayload_def)

text \<open>
  Claim C2, as amended. When a release is taken (its pointer is the session's), the
  swipe of each axis is the sign of the axis's velocity if the elapsed time is below
  220 ms, the axis was intentional, the absolute velocity exceeds \<open>swipeVelocity\<close> and
  the absolute movement exceeds \<open>swipeDistance\<close>, and 0 in every other case; the
  velocity, the movement and the intentionality are those of the last sample. Where
  \<open>swipeVelocity\<close> of the axis is not negative, the swipe is nonzero exactly under
  these conditions.
\<close>

theorem swipe_at_release:
  assumes "Some (pointerId e) = u_pointerId (drag c)"
  shows "fst (swipe (drag (onDragEnd r c e))) =
           (if ev_timeStamp e - startTime (drag c) < 220
               \<and> fst (u_intentional (drag c)) \<noteq> None
               \<and> \<bar>fst (velocities (drag c))\<bar> > fst (swipeVelocity (config r))
               \<and> \<bar>fst (movement (drag c))\<bar> > fst (swipeDistance (config r))
            then sgn (fst (velocities (drag c))) else 0)
       \<and> snd (swipe (drag (onDragEnd r c e))) =
           (if ev_timeStamp e - startTime (drag c) < 220
               \<and> snd (u_intentional (drag c)) \<noteq> None
               \<and> \<bar>snd (velocities (drag c))\<bar> > snd (swipeVelocity (config r))
               \<and> \<bar>snd (movement (drag c))\<bar> > snd (swipeDistance (config r))
            then sgn (snd (velocities (drag c))) else 0)
       \<and> (0 \<le> fst (swipeVelocity (config r)) \<longrightarrow>
            (fst (swipe (drag (onDragEnd r c e))) \<noteq> 0 \<longleftrightarrow>
               ev_timeStamp e - startTime (drag c) < 220
               \<and> fst (u_intentional (drag c)) \<noteq> None
               \<and> \<bar>fst (velocities (drag c))\<bar> > fst (swipeVelocity (config r))
               \<and> \<bar>fst (movement (drag c))\<bar> > fst (swipeDistance (config r))))
       \<and> (0 \<le> snd (swipeVelocity (config r)) \<longrightarrow>
            (snd (swipe (drag (onDragEnd r c e))) \<noteq> 0 \<longleftrightarrow>
               ev_timeStamp e - startTime (drag c) < 220
               \<and> snd (u_intentional (drag c)) \<noteq> None
               \<and> \<bar>snd (velocities (drag c))\<bar> > snd (swipeVelocity (config r))
               \<and> \<bar>snd (movement (drag c))\<bar> > snd (swipeDistance (config r))))"
  by (auto simp add: onDragEnd_swipe [OF assms] swipeAxis_def SWIPE_MAX_ELAPSED_TIME_def
        sgn_real_def)

theorem swipe_at_release_witness:
  "Some (pointerId (mkEvent 1 ''pointerup'' 100 (80, 5) False)) = u_pointerId (drag quickSwipeMove)
   \<and> 0 \<le> fst (swipeVelocity (config defaultRecognizer))
   \<and> 0 \<le> snd (swipeVelocity (config defaultRecognizer))
   \<and> swipe (drag (onDragEnd defaultRecognizer quickSwipeMove
          (mkEvent 1 ''pointerup'' 100 (80, 5) False))) = (1, 0)"
proof -
  have pid: "Some (pointerId (mkEvent 1 ''pointerup'' 100 (80, 5) False))
      = u_pointerId (drag quickSwipeMove)"
    by (simp add: quickSwipeMove_fields mkEvent_fields)
  have sv: "0 \<le> fst (swipeVelocity (config defaultRecognizer))"
    "0 \<le> snd (swipeVelocity (config defaultRecognizer))"
    by (simp_all add: defaultRecognizer_fields)
  have "fst (swipe (drag (onDragEnd defaultRecognizer quickSwipeMove
          (mkEvent 1 ''pointerup'' 100 (80, 5) False)))) = 1
      \<and> snd (swipe (drag (onDragEnd defaultRecognizer quickSwipeMove
          (mkEvent 1 ''pointerup'' 100 (80, 5) False)))) = 0"
    using swipe_at_release [OF pid, of defaultRecognizer]
    by (simp add: quickSwipeMove_fields mkEvent_fields defaultRecognizer_fields)
  then have "swipe (drag (onDragEnd defaultRecognizer quickSwipeMove
          (mkEvent 1 ''pointerup'' 100 (80, 5) False))) = (1, 0)"
    by (simp add: prod_eq_iff)
  then show ?thesis
    using pid sv by blast
qed


text \<open>
  The claim as stated fails for a negative \<open>swipeVelocity\<close>: the session of
  \<open>pausedSwipePause\<close>, released after 100 ms, meets the four conditions on the x axis
  with a velocity of 0, and its swipe is \<open>sign(0) = 0\<close>.
\<close>

theorem swipe_paused_release_counterexample:
  "Some (pointerId (mkEvent 1 ''pointerup'' 100 (80, 0) False))
     = u_pointerId (drag pausedSwipePause)
   \<and> ev_timeStamp (mkEvent 1 ''pointerup'' 100 (80, 0) False)
       - startTime (drag pausedSwipePause) < 220
   \<and> fst (u_intentional (drag pausedSwipePause)) \<noteq> None
   \<and> \<bar>fst (velocities (drag pausedSwipePause))\<bar>
       > fst (swipeVelocity (config pausedSwipeRecognizer))
   \<and> \<bar>fst (movement (drag pausedSwipePause))\<bar>
       > fst (swipeDistance (config pausedSwipeRecognizer))
   \<and> fst (swipe (drag (onDragEnd pausedSwipeRecognizer pausedSwipePause
              (mkEvent 1 ''pointerup'' 100 (80, 0) False)))) = 0"
proof -
  have pid: "Some (pointerId (mkEvent 1 ''pointerup'' 100 (80, 0) False))
     = u_pointerId (drag pausedSwipePause)"
    by (simp add: pausedSwipePause_fields mkEvent_fields)
  show ?thesis
    by (simp add: onDragEnd_swipe [OF pid] pausedSwipePause_fields mkEvent_fields
          pausedSwipeRecognizer_fields swipeAxis_def SWIPE_MAX_ELAPSED_TIME_def)
qed

section \<open>Tap filtering\<close>

lemma fireGestureHandler_calls:
  "calls (snd (fireGestureHandler r b c)) =
     (if u_blocked (drag c)
         \<or> (\<not> b \<and> fst (u_intentional (drag c)) = None \<and> snd (u_intentional (drag c)) = None)
      then calls c
      else calls c @ [((shared c)\<lparr>dragging := u_active (drag c)\<rparr>,
                      (drag c)\<lparr>active := u_active (drag c),
                               first := (u_active (drag c) \<and> \<not> active (drag c)),
                               last_g := (active (drag c) \<and> \<not> u_active (drag c))\<rparr>)])"
  by (simp add: fireGestureHandler_def Let_def clean_drag_calls)

lemma onDragEnd_forced:
  assumes pid: "Some (pointerId e) = u_pointerId (drag c)"
    and ft: "filterTaps (config r)" and tp: "u_isTap (drag c)"
    and nb: "\<forall>i m s. \<not> snd (checkIntentionality r i m s)"
  shows "\<exists>sh s. calls (onDragEnd r c e) = calls c @ [(sh, s)] \<and> tap s \<and> \<not> active s"
  using pid ft tp
  by (simp add: onDragEnd_def endFrame_def Let_def fireGestureHandler_calls assignMovement_keeps
        getMovement_snd_always getMovement_fst assignPayload_def updateSharedState_up_def
        nb [rule_format])

lemma tapRecognizer_fields:
  "checkIntentionality tapRecognizer = checkIntentionality_base"
  "getInternalMovement tapRecognizer = coordinatesInternalMovement"
  "debounced tapRecognizer"
  "threshold (config tapRecognizer) = (3, 3)"
  "filterTaps (config tapRecognizer)"
  by (simp_all add: tapRecognizer_def dragRecognizer_def config_defs)

lemma startDrag_calls:
  assumes chk: "checkIntentionality r = checkIntentionality_base"
    and "intentionalDisplacements r (drag c) (getInternalMovement r (ev_values e) (drag c))
           = (None, None)"
  shows "calls (startDrag r c e) = calls c"
  using assms(2)
  by (simp add: startDrag_def Let_def fireGestureHandler_calls getMovement_base [OF chk]
        assignMovement_rest updateSharedState_event_def)

lemma initialController_calls: "calls initialController = []"
  by (simp add: initialController_def)

lemma tapStart_fields:
  "u_pointerId (drag tapStart) = Some 1"
  "u_isTap (drag tapStart)"
  "calls tapStart = []"
proof -
  have i: "intentionalDisplacements tapRecognizer (drag initialController)
      (getInternalMovement tapRecognizer (ev_values (mkEvent 1 ''pointerdown'' 0 (0, 0) True))
         (drag initialController)) = (None, None)"
    by (simp add: tapRecognizer_fields initialController_fields movement_defs mkEvent_fields)
  show "u_pointerId (drag tapStart) = Some 1" "u_isTap (drag tapStart)"
    by (simp_all add: tapStart_def startDrag_fields mkEvent_fields)
  show "calls tapStart = []"
    unfolding tapStart_def
    by (simp add: startDrag_calls [OF tapRecognizer_fields(1) i] initialController_calls)
qed

text \<open>
  Claim C3, as amended. If \<open>filterTaps\<close> is configured and a drag session ends while
  still flagged as a tap, the handler is invoked on the session's end frame, also when
  no axis is intentional: the tap is the force flag of \<open>fireGestureHandler\<close>. The
  state the handler receives has \<open>tap\<close> true and \<open>active\<close> false. This holds unless
  the gesture is blocked, which a recognizer with the base class's
  \<open>checkIntentionality\<close> never is.
\<close>

theorem filterTaps_forces_end_frame:
  assumes "Some (pointerId e) = u_pointerId (drag c)"
    and "filterTaps (config r)" and "u_isTap (drag c)"
    and "\<forall>i m s. \<not> snd (checkIntentionality r i m s)"
  shows "\<exists>sh s. calls (onDragEnd r c e) = calls c @ [(sh, s)] \<and> tap s \<and> \<not> active s"
  using onDragEnd_forced [OF assms] .

theorem filterTaps_forces_end_frame_witness:
  "Some (pointerId (mkEvent 1 ''pointerup'' 20 (0, 0) False)) = u_pointerId (drag tapStart)
   \<and> filterTaps (config tapRecognizer)
   \<and> u_isTap (drag tapStart)
   \<and> (\<forall>i m s. \<not> snd (checkIntentionality tapRecognizer i m s))
   \<and> (\<exists>sh s. calls (onDragEnd tapRecognizer tapStart (mkEvent 1 ''pointerup'' 20 (0, 0) False))
         = calls tapStart @ [(sh, s)] \<and> tap s \<and> \<not> active s)"
proof -
  have pid: "Some (pointerId (mkEvent 1 ''pointerup'' 20 (0, 0) False))
      = u_pointerId (drag tapStart)"
    by (simp add: tapStart_fields mkEvent_fields)
  have nb: "\<forall>i m s. \<not> snd (checkIntentionality tapRecognizer i m s)"
    by (simp add: tapRecognizer_fields checkIntentionality_base_def)
  show ?thesis
    using filterTaps_forces_end_frame [OF pid tapRecognizer_fields(5) tapStart_fields(2) nb]
    by (intro conjI pid tapRecognizer_fields(5) tapStart_fields(2) nb)
qed


text \<open>
  The claim as stated fails on every tap: on the recognizer with \<open>filterTaps\<close>, the
  session of \<open>tapStart\<close> has not invoked the handler, is flagged as a tap when the
  pointer is released, and the release invokes the handler.
\<close>

theorem filterTaps_tap_fires_counterexample:
  "filterTaps (config tapRecognizer)
   \<and> u_isTap (drag tapStart)
   \<and> Some (pointerId (mkEvent 1 ''pointerup'' 20 (0, 0) False)) = u_pointerId (drag tapStart)
   \<and> tap (drag (onDragEnd tapRecognizer tapStart (mkEvent 1 ''pointerup'' 20 (0, 0) False)))
   \<and> calls tapStart = []
   \<and> length (calls (onDragEnd tapRecognizer tapStart (mkEvent 1 ''pointerup'' 20 (0, 0) False))) = 1"
proof -
  have pid: "Some (pointerId (mkEvent 1 ''pointerup'' 20 (0, 0) False))
      = u_pointerId (drag tapStart)"
    by (simp add: tapStart_fields mkEvent_fields)
  have nb: "\<forall>i m s. \<not> snd (checkIntentionality tapRecognizer i m s)"
    by (simp add: tapRecognizer_fields checkIntentionality_base_def)
  obtain sh s where
    "calls (onDragEnd tapRecognizer tapStart (mkEvent 1 ''pointerup'' 20 (0, 0) False))
       = calls tapStart @ [(sh, s)]"
    using onDragEnd_forced [OF pid tapRecognizer_fields(5) tapStart_fields(2) nb] by blast
  then have len: "length (calls (onDragEnd tapRecognizer tapStart
      (mkEvent 1 ''pointerup'' 20 (0, 0) False))) = 1"
    by (simp add: tapStart_fields)
  have tp: "tap (drag (onDragEnd tapRecognizer tapStart (mkEvent 1 ''pointerup'' 20 (0, 0) False)))"
    by (simp add: onDragEnd_tap [OF pid] tapStart_fields)
  show ?thesis
    by (intro conjI tapRecognizer_fields(5) tapStart_fields(2) pid tp tapStart_fields(3) len)
qed

section \<open>The start delay\<close>

lemma clean_drag_timers_eq:
  "timers (clean_drag c) =
     (case timeouts c of None \<Rightarrow> timers c | Some h \<Rightarrow> filter (\<lambda>t. fst t \<noteq> h) (timers c))"
  by (simp add: clean_drag_def clean_base_def clearTimeout_def Let_def split: option.splits)

lemma clean_drag_timers: "set (timers (clean_drag c)) \<subseteq> set (timers c)"
  by (cases "timeouts c") (simp_all add: clean_drag_timers_eq)

lemma clean_drag_clears:
  "timeouts c = Some h \<Longrightarrow> h \<notin> fst ` set (timers (clean_drag c))"
  by (auto simp add: clean_drag_timers_eq)

lemma fireGestureHandler_timers:
  "set (timers (snd (fireGestureHandler r b c))) \<subseteq> set (timers c)"
proof -
  have a: "set (timers (clean_drag (c\<lparr>drag := d\<rparr>))) \<subseteq> set (timers c)" for d
    using clean_drag_timers [of "c\<lparr>drag := d\<rparr>"] by simp
  have b: "set (timers (clean_drag (c\<lparr>drag := d, shared := sh, calls := cl\<rparr>)))
      \<subseteq> set (timers c)" for d sh cl
    using clean_drag_timers [of "c\<lparr>drag := d, shared := sh, calls := cl\<rparr>"] by simp
  show ?thesis
    unfolding fireGestureHandler_def Let_def
    by (simp add: a b)
qed

lemma startDrag_timers: "set (timers (startDrag r c e)) \<subseteq> set (timers c)"
proof -
  have "set (timers (startDrag r c e)) \<subseteq> set (timers
      ((updateSharedState_event e c)\<lparr>drag :=
          (assignMovement (snd (getMovement r (drag (updateSharedState_event e c)) (ev_values e)))
             ((assignPayload (getGenericPayload (drag (updateSharedState_event e c)) e True)
                 (getStartGestureState (drag (updateSharedState_event e c)) (ev_values e) e))
               \<lparr>u_pointerId := Some (pointerId e)\<rparr>))\<lparr>cancel := OnCancel\<rparr>\<rparr>))"
    unfolding startDrag_def Let_def by (rule fireGestureHandler_timers)
  then show ?thesis by (simp add: updateSharedState_event_def)
qed

lemma onDragStart_delayed:
  assumes "delay (config r) > 0" "recognizer_enabled r" "\<not> u_active (drag c)"
  shows "onDragStart r c e =
     setTimeout (delay (config r)) e
       ((setListeners c)\<lparr>drag := (drag c)\<lparr>u_pointerId := Some (pointerId e),
                                             u_delayedEvent := True\<rparr>\<rparr>)"
  using assms by (simp add: onDragStart_def dragShouldStart_def Let_def setListeners_def)

lemma onDragStart_delayed_fields:
  assumes "delay (config r) > 0" "recognizer_enabled r" "\<not> u_active (drag c)"
  shows "drag (onDragStart r c e) =
           (drag c)\<lparr>u_pointerId := Some (pointerId e), u_delayedEvent := True\<rparr>"
    and "calls (onDragStart r c e) = calls c"
    and "timers (onDragStart r c e) = timers c @ [(next_timer c, delay (config r), e)]"
    and "timeouts (onDragStart r c e) = Some (next_timer c)"
  by (simp_all add: onDragStart_delayed [OF assms] setTimeout_def setListeners_def)

lemma clearTimeout_drag: "drag (clearTimeout c) = drag c"
  by (simp add: clearTimeout_def split: option.splits)

lemma clearTimeout_clears:
  "timeouts c = Some h \<Longrightarrow> h \<notin> fst ` set (timers (clearTimeout c))"
  by (auto simp add: clearTimeout_def)

lemma delayed_move_starts:
  assumes d: "delay (config r) > 0" and en: "recognizer_enabled r"
    and na: "\<not> u_active (drag c)" and nc: "\<not> canceled (drag c)"
    and pid: "pointerId e' = pointerId e" and deb: "debounced r"
  shows "onDragChange r (onDragStart r c e) e'
           = startDrag r (clearTimeout (onDragStart r c e)) e'"
    and "u_active (drag (onDragChange r (onDragStart r c e) e'))"
    and "next_timer c \<notin> fst ` set (timers (onDragChange r (onDragStart r c e) e'))"
proof -
  note f = onDragStart_delayed_fields [OF d en na, of e]
  show a: "onDragChange r (onDragStart r c e) e'
           = startDrag r (clearTimeout (onDragStart r c e)) e'"
    using na nc pid by (simp add: onDragChange_def f(1))
  show "u_active (drag (onDragChange r (onDragStart r c e) e'))"
    by (simp add: a startDrag_u_active [OF deb])
  have "next_timer c \<notin> fst ` set (timers (clearTimeout (onDragStart r c e)))"
    by (rule clearTimeout_clears [OF f(4)])
  then show "next_timer c \<notin> fst ` set (timers (onDragChange r (onDragStart r c e) e'))"
    using startDrag_timers [of r "clearTimeout (onDragStart r c e)" e'] unfolding a
    by blast
qed

lemma fireGestureHandler_clears:
  assumes "\<not> u_active (drag c)" and "timeouts c = Some h"
    and "calls (snd (fireGestureHandler r b c)) \<noteq> calls c"
  shows "h \<notin> fst ` set (timers (snd (fireGestureHandler r b c)))"
  using assms
  by (auto simp add: fireGestureHandler_def Let_def clean_drag_clears clean_drag_calls
        split: if_splits)

lemma endFrame_fields:
  "\<not> u_active (drag (endFrame r c e))"
  "timeouts (endFrame r c e) = timeouts c"
  "calls (endFrame r c e) = calls c"
  by (simp_all add: endFrame_def Let_def updateSharedState_up_def assignMovement_keeps
        assignPayload_def getMovement_fst)

lemma onDragEnd_clears_timer:
  assumes pid: "Some (pointerId e) = u_pointerId (drag c)"
    and h: "timeouts c = Some h"
    and fired: "calls (onDragEnd r c e) \<noteq> calls c"
  shows "h \<notin> fst ` set (timers (onDragEnd r c e))"
proof -
  have eq: "onDragEnd r c e = snd (fireGestureHandler r
      (filterTaps (config r) \<and> u_isTap (drag (endFrame r c e))) (endFrame r c e))"
    using pid by (simp add: onDragEnd_def Let_def)
  have t: "timeouts (endFrame r c e) = Some h"
    by (simp add: endFrame_fields h)
  have f: "calls (snd (fireGestureHandler r
      (filterTaps (config r) \<and> u_isTap (drag (endFrame r c e))) (endFrame r c e)))
        \<noteq> calls (endFrame r c e)"
    using fired unfolding eq by (simp add: endFrame_fields)
  show ?thesis
    unfolding eq by (rule fireGestureHandler_clears [OF endFrame_fields(1) t f])
qed

lemma delayRecognizer_fields:
  "checkIntentionality delayRecognizer = checkIntentionality_base"
  "debounced delayRecognizer"
  "recognizer_enabled delayRecognizer"
  "delay (config delayRecognizer) = 180"
  by (simp_all add: delayRecognizer_def dragRecognizer_def config_defs recognizer_enabled_def)

lemma initialController_timers:
  "timers initialController = []" "next_timer initialController = 0"
  by (simp_all add: initialController_def)

lemma delayedDown_hyps:
  "delay (config delayRecognizer) > 0"
  "recognizer_enabled delayRecognizer"
  "\<not> u_active (drag initialController)"
  "\<not> canceled (drag initialController)"
  "pointerId (mkEvent 1 ''pointermove'' 50 (10, 0) True)
     = pointerId (mkEvent 1 ''pointerdown'' 0 (0, 0) True)"
  "debounced delayRecognizer"
  by (simp_all add: delayRecognizer_fields initialController_def getInitialState_def
        mkEvent_fields)

lemma onCancel_fields:
  "canceled (drag (onCancel c))"
  "\<not> u_active (drag (onCancel c))"
  by (simp_all add: onCancel_def Let_def updateSharedState_up_def)

lemma animationFrame_keeps:
  "canceled (drag (animationFrame r c)) = canceled (drag c)"
  "\<not> u_active (drag c) \<Longrightarrow> \<not> u_active (drag (animationFrame r c))"
  by (simp_all add: animationFrame_def fireGestureHandler_keeps fireGestureHandler_u_active)

lemma canceledSession_fields:
  "canceled (drag canceledSession)"
  "\<not> u_active (drag canceledSession)"
  unfolding canceledSession_def
  by (simp_all add: animationFrame_keeps onCancel_fields)

lemma delayed_move_canceled:
  assumes d: "delay (config r) > 0" and en: "recognizer_enabled r"
    and na: "\<not> u_active (drag c)" and cn: "canceled (drag c)"
  shows "onDragChange r (onDragStart r c e) e' = onDragStart r c e"
  by (simp add: onDragChange_def onDragStart_delayed_fields(1) [OF d en na] cn)

lemma delayed_move_other_pointer:
  assumes d: "delay (config r) > 0" and en: "recognizer_enabled r"
    and na: "\<not> u_active (drag c)" and pid: "pointerId e' \<noteq> pointerId e"
  shows "onDragChange r (onDragStart r c e) e' = onDragStart r c e"
  using pid by (simp add: onDragChange_def onDragStart_delayed_fields(1) [OF d en na])

text \<open>
  Claim C4, as amended. For a drag configured with a start delay greater than 0, a
  pointer-down that \<open>onDragStart\<close> accepts (the gesture enabled, no session active)
  defers the start to a timer and marks it pending, without starting the session or
  invoking the handler. A pointer-move of the same pointer received before the timer
  fires is not ignored: it clears the timer and starts the session at once, with the
  move as the start event. The exception is a gesture state still flagged \<open>canceled\<close>
  by an earlier session, which \<open>onDragStart\<close> does not reset: there the move is
  ignored and the timer stays pending. A move of another pointer is ignored. A drag
  recognizer is debounced (the field's initial value in \<open>Recognizer\<close>, which
  \<open>DragRecognizer\<close> keeps). The theorem also shows that a release before the timer
  fires clears the timer whenever its end frame invokes the handler.
\<close>

theorem delayed_start_begins_on_move:
  assumes "delay (config r) > 0" and "recognizer_enabled r" and "\<not> u_active (drag c)"
    and "pointerId e' = pointerId e" and "debounced r"
  shows "u_delayedEvent (drag (onDragStart r c e))
       \<and> \<not> u_active (drag (onDragStart r c e))
       \<and> calls (onDragStart r c e) = calls c
       \<and> timers (onDragStart r c e) = timers c @ [(next_timer c, delay (config r), e)]
       \<and> (\<not> canceled (drag c) \<longrightarrow>
            onDragChange r (onDragStart r c e) e'
              = startDrag r (clearTimeout (onDragStart r c e)) e'
            \<and> u_active (drag (onDragChange r (onDragStart r c e) e'))
            \<and> next_timer c \<notin> fst ` set (timers (onDragChange r (onDragStart r c e) e')))
       \<and> (canceled (drag c) \<longrightarrow>
            onDragChange r (onDragStart r c e) e' = onDragStart r c e)
       \<and> (\<forall>e''. pointerId e'' \<noteq> pointerId e \<longrightarrow>
            onDragChange r (onDragStart r c e) e'' = onDragStart r c e)
       \<and> (calls (onDragEnd r (onDragStart r c e) e') \<noteq> calls c \<longrightarrow>
            next_timer c \<notin> fst ` set (timers (onDragEnd r (onDragStart r c e) e')))"
proof -
  note f = onDragStart_delayed_fields [OF assms(1-3), of e]
  have mv: "\<not> canceled (drag c) \<longrightarrow>
            onDragChange r (onDragStart r c e) e'
              = startDrag r (clearTimeout (onDragStart r c e)) e'
            \<and> u_active (drag (onDragChange r (onDragStart r c e) e'))
            \<and> next_timer c \<notin> fst ` set (timers (onDragChange r (onDragStart r c e) e'))"
    using delayed_move_starts [OF assms(1-3) _ assms(4,5)] by blast
  have cn: "canceled (drag c) \<longrightarrow>
            onDragChange r (onDragStart r c e) e' = onDragStart r c e"
    using delayed_move_canceled [OF assms(1-3)] by blast
  have ot: "\<forall>e''. pointerId e'' \<noteq> pointerId e \<longrightarrow>
            onDragChange r (onDragStart r c e) e'' = onDragStart r c e"
    using delayed_move_other_pointer [OF assms(1-3)] by blast
  have pid: "Some (pointerId e') = u_pointerId (drag (onDragStart r c e))"
    by (simp add: f(1) assms(4))
  have rel: "calls (onDragEnd r (onDragStart r c e) e') \<noteq> calls c \<longrightarrow>
            next_timer c \<notin> fst ` set (timers (onDragEnd r (onDragStart r c e) e'))"
    using onDragEnd_clears_timer [OF pid f(4), of r] f(2) by simp
  have a: "u_delayedEvent (drag (onDragStart r c e))" "\<not> u_active (drag (onDragStart r c e))"
    using assms(3) by (simp_all add: f(1))
  show ?thesis
    by (intro conjI a f(2) f(3) mv cn ot rel)
qed

theorem delayed_start_begins_on_move_witness:
  "delay (config delayRecognizer) > 0
   \<and> recognizer_enabled delayRecognizer
   \<and> debounced delayRecognizer
   \<and> \<not> u_active (drag initialController)
   \<and> \<not> canceled (drag initialController)
   \<and> pointerId (mkEvent 1 ''pointermove'' 50 (10, 0) True)
       = pointerId (mkEvent 1 ''pointerdown'' 0 (0, 0) True)
   \<and> u_delayedEvent (drag delayedDown)
   \<and> onDragChange delayRecognizer delayedDown (mkEvent 1 ''pointermove'' 50 (10, 0) True)
       = startDrag delayRecognizer (clearTimeout delayedDown)
           (mkEvent 1 ''pointermove'' 50 (10, 0) True)
   \<and> u_active (drag (onDragChange delayRecognizer delayedDown
          (mkEvent 1 ''pointermove'' 50 (10, 0) True)))
   \<and> pointerId (mkEvent 2 ''pointermove'' 50 (10, 0) True)
       \<noteq> pointerId (mkEvent 1 ''pointerdown'' 0 (0, 0) True)
   \<and> onDragChange delayRecognizer delayedDown (mkEvent 2 ''pointermove'' 50 (10, 0) True)
       = delayedDown
   \<and> \<not> u_active (drag canceledSession)
   \<and> canceled (drag canceledSession)
   \<and> pointerId (mkEvent 1 ''pointermove'' 1050 (10, 0) True)
       = pointerId (mkEvent 1 ''pointerdown'' 1000 (0, 0) True)
   \<and> u_delayedEvent (drag canceledDown)
   \<and> timers canceledDown = timers canceledSession
        @ [(next_timer canceledSession, 180, mkEvent 1 ''pointerdown'' 1000 (0, 0) True)]
   \<and> onDragChange delayRecognizer canceledDown (mkEvent 1 ''pointermove'' 1050 (10, 0) True)
       = canceledDown"
proof -
  note h = delayedDown_hyps
  have p2: "pointerId (mkEvent 2 ''pointermove'' 50 (10, 0) True)
       \<noteq> pointerId (mkEvent 1 ''pointerdown'' 0 (0, 0) True)"
    by (simp add: mkEvent_fields)
  have p3: "pointerId (mkEvent 1 ''pointermove'' 1050 (10, 0) True)
       = pointerId (mkEvent 1 ''pointerdown'' 1000 (0, 0) True)"
    by (simp add: mkEvent_fields)
  note t1 = delayed_start_begins_on_move [OF h(1-3) h(5) h(6)]
  note t2 = delayed_start_begins_on_move [OF h(1,2) canceledSession_fields(2) p3 h(6)]
  have a1: "u_delayedEvent (drag delayedDown)"
    unfolding delayedDown_def using t1 by blast
  have a2: "onDragChange delayRecognizer delayedDown (mkEvent 1 ''pointermove'' 50 (10, 0) True)
       = startDrag delayRecognizer (clearTimeout delayedDown)
           (mkEvent 1 ''pointermove'' 50 (10, 0) True)"
    unfolding delayedDown_def using t1 h(4) by blast
  have a3: "u_active (drag (onDragChange delayRecognizer delayedDown
          (mkEvent 1 ''pointermove'' 50 (10, 0) True)))"
    unfolding delayedDown_def using t1 h(4) by blast
  have a4: "onDragChange delayRecognizer delayedDown (mkEvent 2 ''pointermove'' 50 (10, 0) True)
       = delayedDown"
    unfolding delayedDown_def using t1 p2 by blast
  have b1: "u_delayedEvent (drag canceledDown)"
    unfolding canceledDown_def using t2 by blast
  have b2: "timers canceledDown = timers canceledSession
        @ [(next_timer canceledSession, 180, mkEvent 1 ''pointerdown'' 1000 (0, 0) True)]"
    unfolding canceledDown_def using t2 by (simp add: delayRecognizer_fields)
  have b3: "onDragChange delayRecognizer canceledDown (mkEvent 1 ''pointermove'' 1050 (10, 0) True)
       = canceledDown"
    unfolding canceledDown_def using t2 canceledSession_fields(1) by blast
  show ?thesis
    by (intro conjI h(1) h(2) h(6) h(3) h(4) h(5) a1 a2 a3 p2 a4 canceledSession_fields(2)
          canceledSession_fields(1) p3 b1 b2 b3)
qed

text \<open>
  The claim as stated fails on the first move of a delayed drag: 50 ms after the
  pointer-down, with the timer of 180 ms still pending, a move of the same pointer
  starts the session and changes the gesture state.
\<close>

theorem delayed_move_starts_session_counterexample:
  "delay (config delayRecognizer) > 0
   \<and> ev_timeStamp (mkEvent 1 ''pointermove'' 50 (10, 0) True)
       - ev_timeStamp (mkEvent 1 ''pointerdown'' 0 (0, 0) True) < delay (config delayRecognizer)
   \<and> timers delayedDown = [(0, 180, mkEvent 1 ''pointerdown'' 0 (0, 0) True)]
   \<and> \<not> u_active (drag delayedDown)
   \<and> u_active (drag (onDragChange delayRecognizer delayedDown
          (mkEvent 1 ''pointermove'' 50 (10, 0) True)))
   \<and> drag (onDragChange delayRecognizer delayedDown
          (mkEvent 1 ''pointermove'' 50 (10, 0) True)) \<noteq> drag delayedDown"
proof -
  note f = onDragStart_delayed_fields [OF delayedDown_hyps(1-3),
      of "mkEvent 1 ''pointerdown'' 0 (0, 0) True"]
  note m = delayed_move_starts [OF delayedDown_hyps]
  have t: "timers delayedDown = [(0, 180, mkEvent 1 ''pointerdown'' 0 (0, 0) True)]"
    unfolding delayedDown_def
    by (simp add: f(3) delayRecognizer_fields initialController_timers)
  have na: "\<not> u_active (drag delayedDown)"
    unfolding delayedDown_def by (simp add: f(1) delayedDown_hyps(3))
  have a: "u_active (drag (onDragChange delayRecognizer delayedDown
          (mkEvent 1 ''pointermove'' 50 (10, 0) True)))"
    unfolding delayedDown_def by (rule m(2))
  have ne: "drag (onDragChange delayRecognizer delayedDown
          (mkEvent 1 ''pointermove'' 50 (10, 0) True)) \<noteq> drag delayedDown"
    using na a by auto
  have dt: "ev_timeStamp (mkEvent 1 ''pointermove'' 50 (10, 0) True)
       - ev_timeStamp (mkEvent 1 ''pointerdown'' 0 (0, 0) True) < delay (config delayRecognizer)"
    by (simp add: mkEvent_fields delayRecognizer_fields)
  show ?thesis
    by (intro conjI delayedDown_hyps(1) dt t na a ne)
qed

section \<open>Intentionality\<close>

lemma intentionalDisplacements_axes:
  "fst (intentionalDisplacements r s m) =
     (case fst (u_intentional s) of
        Some a \<Rightarrow> Some a
      | None \<Rightarrow> getIntentionalDisplacement (fst m) (fst (threshold (config r))))"
  "snd (intentionalDisplacements r s m) =
     (case snd (u_intentional s) of
        Some a \<Rightarrow> Some a
      | None \<Rightarrow> getIntentionalDisplacement (snd m) (snd (threshold (config r))))"
  by (simp_all add: intentionalDisplacements_def Let_def split: option.splits)

lemma movementSample_intentional:
  assumes "checkIntentionality r = checkIntentionality_base"
  shows "u_intentional (movementSample r s v) =
           intentionalDisplacements r s (getInternalMovement r v s)"
  by (simp add: movementSample_def Let_def getMovement_base [OF assms] assignMovement_rest)

lemma movementSamples_keep:
  assumes chk: "checkIntentionality r = checkIntentionality_base"
  shows "fst (u_intentional s) = Some a \<Longrightarrow>
           fst (u_intentional (foldl (movementSample r) s vs)) = Some a"
    and "snd (u_intentional s) = Some b \<Longrightarrow>
           snd (u_intentional (foldl (movementSample r) s vs)) = Some b"
proof -
  show "fst (u_intentional s) = Some a \<Longrightarrow>
           fst (u_intentional (foldl (movementSample r) s vs)) = Some a"
  proof (induction vs arbitrary: s)
    case Nil
    then show ?case by simp
  next
    case (Cons v vs)
    have "fst (u_intentional (movementSample r s v)) = Some a"
      using Cons.prems
      by (simp add: movementSample_intentional [OF chk] intentionalDisplacements_axes)
    from Cons.IH [OF this] show ?case by simp
  qed
  show "snd (u_intentional s) = Some b \<Longrightarrow>
           snd (u_intentional (foldl (movementSample r) s vs)) = Some b"
  proof (induction vs arbitrary: s)
    case Nil
    then show ?case by simp
  next
    case (Cons v vs)
    have "snd (u_intentional (movementSample r s v)) = Some b"
      using Cons.prems
      by (simp add: movementSample_intentional [OF chk] intentionalDisplacements_axes)
    from Cons.IH [OF this] show ?case by simp
  qed
qed

lemma dragSamples_keep:
  assumes chk: "checkIntentionality r = checkIntentionality_base"
    and "\<forall>e\<in>set es. pointerId e = pid \<and> ev_down e"
    and "\<not> canceled (drag c)" "u_pointerId (drag c) = Some pid" "u_active (drag c)"
  shows "(fst (u_intentional (drag c)) = Some a \<longrightarrow>
           fst (u_intentional (drag (foldl (onDragChange r) c es))) = Some a)
       \<and> (snd (u_intentional (drag c)) = Some b \<longrightarrow>
           snd (u_intentional (drag (foldl (onDragChange r) c es))) = Some b)"
  using assms(2-)
proof (induction es arbitrary: c)
  case Nil
  then show ?case by simp
next
  case (Cons e es)
  have e: "pointerId e = pid" "ev_down e" using Cons.prems(1) by simp_all
  have pid: "u_pointerId (drag c) = Some (pointerId e)" using Cons.prems(3) e by simp
  note step = onDragChange_sample [OF Cons.prems(2) pid Cons.prems(4) e(2), of r]
  note base = onDragChange_base [OF chk Cons.prems(2) pid Cons.prems(4) e(2)]
  have rest: "\<forall>e\<in>set es. pointerId e = pid \<and> ev_down e" using Cons.prems(1) by simp
  have pid': "u_pointerId (drag (onDragChange r c e)) = Some pid"
    using step(3) Cons.prems(3) by simp
  note ih = Cons.IH [OF rest step(2) pid' base(8)]
  show ?case
    using ih by (simp add: base(1) intentionalDisplacements_axes)
qed

lemma tapStart_more:
  "\<not> canceled (drag tapStart)"
  "u_active (drag tapStart)"
  "initial (drag tapStart) = (0, 0)"
  "u_intentional (drag tapStart) = (None, None)"
  unfolding tapStart_def
  by (simp_all add: startDrag_fields startDrag_base [OF tapRecognizer_fields(1)]
        tapRecognizer_fields initialController_fields movement_defs mkEvent_fields)

lemma tapMove_fields:
  "\<not> canceled (drag tapMove)"
  "u_pointerId (drag tapMove) = Some 1"
  "u_active (drag tapMove)"
  "u_intentional (drag tapMove) = (Some 3, None)"
proof -
  have main: "\<not> canceled (drag tapStart)"
    "u_pointerId (drag tapStart) = Some (pointerId (mkEvent 1 ''pointermove'' 10 (5, 1) True))"
    "u_active (drag tapStart)" "ev_down (mkEvent 1 ''pointermove'' 10 (5, 1) True)"
    by (simp_all add: tapStart_fields tapStart_more mkEvent_fields)
  note a = onDragChange_sample [OF main, of tapRecognizer]
  note b = onDragChange_base [OF tapRecognizer_fields(1) main]
  show "\<not> canceled (drag tapMove)"
    "u_pointerId (drag tapMove) = Some 1"
    "u_active (drag tapMove)"
    "u_intentional (drag tapMove) = (Some 3, None)"
    unfolding tapMove_def
    by (simp_all add: a b tapRecognizer_fields tapStart_fields tapStart_more
          movement_defs mkEvent_fields)
qed

text \<open>
  What \<open>getMovement\<close> does to \<open>_intentional\<close> from a given state, for a recognizer
  with the \<open>checkIntentionality\<close> of \<open>Recognizer\<close>: on a sample where an axis is
  still false it becomes \<open>sign(displacement) * threshold[axis]\<close> if \<open>|displacement|\<close>
  has reached \<open>threshold[axis]\<close> and stays false otherwise; and once it has a value it
  keeps exactly that value on every later sample, both over any samples of
  \<open>getMovement\<close> and over the samples and the release of a drag session. Whether a
  session starts with the axis false is another matter, settled below.
\<close>

lemma intentional_frozen_within_session:
  assumes "checkIntentionality r = checkIntentionality_base"
  shows "(fst (u_intentional s) = None \<longrightarrow>
            fst (u_intentional (movementSample r s v)) =
              (if \<bar>fst (getInternalMovement r v s)\<bar> \<ge> fst (threshold (config r))
               then Some (sgn (fst (getInternalMovement r v s)) * fst (threshold (config r)))
               else None))
       \<and> (snd (u_intentional s) = None \<longrightarrow>
            snd (u_intentional (movementSample r s v)) =
              (if \<bar>snd (getInternalMovement r v s)\<bar> \<ge> snd (threshold (config r))
               then Some (sgn (snd (getInternalMovement r v s)) * snd (threshold (config r)))
               else None))
       \<and> (\<forall>a. fst (u_intentional s) = Some a \<longrightarrow>
            fst (u_intentional (foldl (movementSample r) s vs)) = Some a)
       \<and> (\<forall>b. snd (u_intentional s) = Some b \<longrightarrow>
            snd (u_intentional (foldl (movementSample r) s vs)) = Some b)
       \<and> ((\<forall>e\<in>set es. pointerId e = pid \<and> ev_down e) \<and> \<not> canceled (drag c)
            \<and> u_pointerId (drag c) = Some pid \<and> u_active (drag c) \<longrightarrow>
            (\<forall>a. fst (u_intentional (drag c)) = Some a \<longrightarrow>
               fst (u_intentional (drag (foldl (onDragChange r) c es))) = Some a
               \<and> fst (u_intentional (drag (onDragEnd r (foldl (onDragChange r) c es) e1)))
                   = Some a)
          \<and> (\<forall>b. snd (u_intentional (drag c)) = Some b \<longrightarrow>
               snd (u_intentional (drag (foldl (onDragChange r) c es))) = Some b
               \<and> snd (u_intentional (drag (onDragEnd r (foldl (onDragChange r) c es) e1)))
                   = Some b))"
proof -
  have p1: "fst (u_intentional s) = None \<longrightarrow>
            fst (u_intentional (movementSample r s v)) =
              (if \<bar>fst (getInternalMovement r v s)\<bar> \<ge> fst (threshold (config r))
               then Some (sgn (fst (getInternalMovement r v s)) * fst (threshold (config r)))
               else None)"
    by (simp add: movementSample_intentional [OF assms] intentionalDisplacements_axes
          getIntentionalDisplacement_def)
  have p2: "snd (u_intentional s) = None \<longrightarrow>
            snd (u_intentional (movementSample r s v)) =
              (if \<bar>snd (getInternalMovement r v s)\<bar> \<ge> snd (threshold (config r))
               then Some (sgn (snd (getInternalMovement r v s)) * snd (threshold (config r)))
               else None)"
    by (simp add: movementSample_intentional [OF assms] intentionalDisplacements_axes
          getIntentionalDisplacement_def)
  have p3: "\<forall>a. fst (u_intentional s) = Some a \<longrightarrow>
            fst (u_intentional (foldl (movementSample r) s vs)) = Some a"
    using movementSamples_keep(1) [OF assms] by blast
  have p4: "\<forall>b. snd (u_intentional s) = Some b \<longrightarrow>
            snd (u_intentional (foldl (movementSample r) s vs)) = Some b"
    using movementSamples_keep(2) [OF assms] by blast
  have endk: "fst (u_intentional (drag c')) = Some a \<Longrightarrow>
      fst (u_intentional (drag (onDragEnd r c' e1))) = Some a"
      "snd (u_intentional (drag c')) = Some b \<Longrightarrow>
      snd (u_intentional (drag (onDragEnd r c' e1))) = Some b" for c' a b
  proof -
    show "fst (u_intentional (drag c')) = Some a \<Longrightarrow>
      fst (u_intentional (drag (onDragEnd r c' e1))) = Some a"
    proof (cases "Some (pointerId e1) = u_pointerId (drag c')")
      case True
      assume "fst (u_intentional (drag c')) = Some a"
      then show ?thesis
        by (simp add: onDragEnd_base(1) [OF assms True] intentionalDisplacements_axes)
    next
      case False
      assume "fst (u_intentional (drag c')) = Some a"
      then show ?thesis using False by (simp add: onDragEnd_def)
    qed
    show "snd (u_intentional (drag c')) = Some b \<Longrightarrow>
      snd (u_intentional (drag (onDragEnd r c' e1))) = Some b"
    proof (cases "Some (pointerId e1) = u_pointerId (drag c')")
      case True
      assume "snd (u_intentional (drag c')) = Some b"
      then show ?thesis
        by (simp add: onDragEnd_base(1) [OF assms True] intentionalDisplacements_axes)
    next
      case False
      assume "snd (u_intentional (drag c')) = Some b"
      then show ?thesis using False by (simp add: onDragEnd_def)
    qed
  qed
  have p5: "(\<forall>e\<in>set es. pointerId e = pid \<and> ev_down e) \<and> \<not> canceled (drag c)
            \<and> u_pointerId (drag c) = Some pid \<and> u_active (drag c) \<longrightarrow>
            (\<forall>a. fst (u_intentional (drag c)) = Some a \<longrightarrow>
               fst (u_intentional (drag (foldl (onDragChange r) c es))) = Some a
               \<and> fst (u_intentional (drag (onDragEnd r (foldl (onDragChange r) c es) e1)))
                   = Some a)
          \<and> (\<forall>b. snd (u_intentional (drag c)) = Some b \<longrightarrow>
               snd (u_intentional (drag (foldl (onDragChange r) c es))) = Some b
               \<and> snd (u_intentional (drag (onDragEnd r (foldl (onDragChange r) c es) e1)))
                   = Some b)"
    using dragSamples_keep [OF assms, of es pid c] endk by blast
  show ?thesis
    by (intro conjI p1 p2 p3 p4 p5)
qed

lemma intentional_frozen_within_session_example:
  "checkIntentionality tapRecognizer = checkIntentionality_base
   \<and> fst (u_intentional getInitialState) = None
   \<and> snd (u_intentional getInitialState) = None
   \<and> fst (u_intentional (movementSample tapRecognizer getInitialState (5, 1))) = Some 3
   \<and> snd (u_intentional (movementSample tapRecognizer getInitialState (5, 1))) = None
   \<and> fst (u_intentional (foldl (movementSample tapRecognizer)
              (movementSample tapRecognizer getInitialState (5, 1)) [(1, 1), (- 10, 2)])) = Some 3
   \<and> pointerId (mkEvent 1 ''pointermove'' 20 (1, 1) True) = 1
   \<and> ev_down (mkEvent 1 ''pointermove'' 20 (1, 1) True)
   \<and> \<not> canceled (drag tapMove) \<and> u_pointerId (drag tapMove) = Some 1 \<and> u_active (drag tapMove)
   \<and> fst (u_intentional (drag tapMove)) = Some 3
   \<and> fst (u_intentional (drag (foldl (onDragChange tapRecognizer) tapMove
              [mkEvent 1 ''pointermove'' 20 (1, 1) True]))) = Some 3
   \<and> fst (u_intentional (drag (onDragEnd tapRecognizer
              (foldl (onDragChange tapRecognizer) tapMove
                 [mkEvent 1 ''pointermove'' 20 (1, 1) True])
              (mkEvent 1 ''pointerup'' 30 (1, 1) False)))) = Some 3"
proof -
  note chk = tapRecognizer_fields(1)
  have i0: "fst (u_intentional getInitialState) = None" "snd (u_intentional getInitialState) = None"
    by (simp_all add: getInitialState_def)
  have g: "coordinatesInternalMovement (5, 1) getInitialState = (5, 1)"
    by (simp add: coordinatesInternalMovement_def subV_def getInitialState_def)
  note t1 = intentional_frozen_within_session [OF chk, of getInitialState "(5, 1)" "[]" "[]" 0
      initialController "mkEvent 1 ''pointerup'' 30 (1, 1) False"]
  have s1: "fst (u_intentional (movementSample tapRecognizer getInitialState (5, 1))) = Some 3"
    "snd (u_intentional (movementSample tapRecognizer getInitialState (5, 1))) = None"
    using t1 i0 by (simp_all add: g tapRecognizer_fields)
  note t2 = intentional_frozen_within_session [OF chk,
      of "movementSample tapRecognizer getInitialState (5, 1)" "(0, 0)" "[(1, 1), (- 10, 2)]"
         "[mkEvent 1 ''pointermove'' 20 (1, 1) True]" 1 tapMove
         "mkEvent 1 ''pointerup'' 30 (1, 1) False"]
  have s2: "fst (u_intentional (foldl (movementSample tapRecognizer)
              (movementSample tapRecognizer getInitialState (5, 1)) [(1, 1), (- 10, 2)])) = Some 3"
    using t2 s1(1) by blast
  have ev: "pointerId (mkEvent 1 ''pointermove'' 20 (1, 1) True) = 1"
    "ev_down (mkEvent 1 ''pointermove'' 20 (1, 1) True)"
    by (simp_all add: mkEvent_fields)
  have all: "\<forall>e\<in>set [mkEvent 1 ''pointermove'' 20 (1, 1) True]. pointerId e = 1 \<and> ev_down e"
    using ev by simp
  have f3: "fst (u_intentional (drag tapMove)) = Some 3"
    by (simp add: tapMove_fields)
  have s3: "fst (u_intentional (drag (foldl (onDragChange tapRecognizer) tapMove
              [mkEvent 1 ''pointermove'' 20 (1, 1) True]))) = Some 3"
    "fst (u_intentional (drag (onDragEnd tapRecognizer
              (foldl (onDragChange tapRecognizer) tapMove
                 [mkEvent 1 ''pointermove'' 20 (1, 1) True])
              (mkEvent 1 ''pointerup'' 30 (1, 1) False)))) = Some 3"
    using t2 all tapMove_fields(1-3) f3 by blast+
  show ?thesis
    by (intro conjI chk i0 s1 s2 ev tapMove_fields(1-3) f3 s3)
qed

section \<open>Intentionality at the start of a later session\<close>

lemma tapRecognizer_more:
  "recognizer_enabled tapRecognizer"
  "delay (config tapRecognizer) = 0"
  "rubberband (config tapRecognizer) = (0, 0)"
  "bounds (config tapRecognizer) = ((None, None), (None, None))"
  "cfg_initial (config tapRecognizer) = (0, 0)"
  by (simp_all add: tapRecognizer_def dragRecognizer_def config_defs recognizer_enabled_def)

lemma onDragStart_immediate:
  assumes "delay (config r) = 0" "recognizer_enabled r" "\<not> u_active (drag c)"
  shows "onDragStart r c e =
     startDrag r ((setListeners c)\<lparr>drag := (drag c)\<lparr>u_pointerId := Some (pointerId e)\<rparr>\<rparr>) e"
  using assms by (simp add: onDragStart_def dragShouldStart_def Let_def setListeners_def)

lemma startDrag_u_movement:
  "u_movement (drag (startDrag r c e)) = getInternalMovement r (ev_values e) (drag c)"
  by (simp add: startDrag_def Let_def fireGestureHandler_keeps assignMovement_keeps
        getMovement_snd_always updateSharedState_event_def)

lemma onDragChange_u_movement:
  assumes "\<not> canceled (drag c)" "u_pointerId (drag c) = Some (pointerId e)"
    "u_active (drag c)" "ev_down e"
  shows "u_movement (drag (onDragChange r c e)) = getInternalMovement r (ev_values e) (drag c)"
  using assms
  by (simp add: onDragChange_def Let_def fireGestureHandler_keeps assignMovement_keeps
        assignKinematics_keeps getKinematics_parts getMovement_snd_always
        updateSharedState_event_def)

lemma tapStart_rest:
  "u_initial (drag tapStart) = (0, 0)"
  "lastOffset (drag tapStart) = (0, 0)"
  unfolding tapStart_def
  by (simp_all add: startDrag_fields startDrag_base [OF tapRecognizer_fields(1)]
        tapRecognizer_fields initialController_fields movement_defs mkEvent_fields)

lemma tapMove_more:
  "initial (drag tapMove) = (0, 0)"
  "values_v (drag tapMove) = (5, 1)"
  "u_initial (drag tapMove) = (0, 0)"
proof -
  have main: "\<not> canceled (drag tapStart)"
    "u_pointerId (drag tapStart) = Some (pointerId (mkEvent 1 ''pointermove'' 10 (5, 1) True))"
    "u_active (drag tapStart)" "ev_down (mkEvent 1 ''pointermove'' 10 (5, 1) True)"
    by (simp_all add: tapStart_fields tapStart_more mkEvent_fields)
  note a = onDragChange_sample [OF main, of tapRecognizer]
  note b = onDragChange_base [OF tapRecognizer_fields(1) main]
  show "initial (drag tapMove) = (0, 0)"
    "values_v (drag tapMove) = (5, 1)"
    "u_initial (drag tapMove) = (0, 0)"
    unfolding tapMove_def
    by (simp_all add: a b tapRecognizer_fields tapRecognizer_more tapStart_fields tapStart_more
          tapStart_rest movement_defs mkEvent_fields)
qed

lemma tapRelease_fields:
  "u_intentional (drag tapRelease) = (Some 3, None)"
  "\<not> u_active (drag tapRelease)"
  "initial (drag tapRelease) = (0, 0)"
  "u_initial (drag tapRelease) = (0, 0)"
proof -
  have pid: "Some (pointerId (mkEvent 1 ''pointerup'' 20 (5, 1) False))
      = u_pointerId (drag tapMove)"
    by (simp add: tapMove_fields mkEvent_fields)
  note en = onDragEnd_base [OF tapRecognizer_fields(1) pid]
  show "u_intentional (drag tapRelease) = (Some 3, None)"
    "\<not> u_active (drag tapRelease)"
    "initial (drag tapRelease) = (0, 0)"
    "u_initial (drag tapRelease) = (0, 0)"
    unfolding tapRelease_def
    by (simp_all add: en tapMove_fields tapMove_more tapRecognizer_fields tapRecognizer_more
          movement_defs)
qed

lemma secondStart_fields:
  "\<not> canceled (drag secondStart)"
  "u_pointerId (drag secondStart) = Some 1"
  "u_active (drag secondStart)"
  "initial (drag secondStart) = (0, 0)"
  "u_movement (drag secondStart) = (0, 0)"
  "u_intentional (drag secondStart) = (Some 3, None)"
  "u_initial (drag secondStart) = (0, 0)"
  "movement (drag secondStart) = (- 3, 0)"
proof -
  note eq = onDragStart_immediate [OF tapRecognizer_more(2) tapRecognizer_more(1)
      tapRelease_fields(2), of "mkEvent 1 ''pointerdown'' 100 (0, 0) True"]
  show "\<not> canceled (drag secondStart)"
    "u_pointerId (drag secondStart) = Some 1"
    "u_active (drag secondStart)"
    "initial (drag secondStart) = (0, 0)"
    "u_movement (drag secondStart) = (0, 0)"
    "u_intentional (drag secondStart) = (Some 3, None)"
    "u_initial (drag secondStart) = (0, 0)"
    "movement (drag secondStart) = (- 3, 0)"
    unfolding secondStart_def eq
    by (simp_all add: startDrag_fields startDrag_u_movement
          startDrag_base [OF tapRecognizer_fields(1)] tapRecognizer_fields tapRecognizer_more
          tapRelease_fields movement_defs mkEvent_fields setListeners_def)
qed

lemma secondMove_fields:
  "u_movement (drag secondMove) = (- 5, 0)"
  "u_intentional (drag secondMove) = (Some 3, None)"
  "movement (drag secondMove) = (- 8, 0)"
proof -
  have main: "\<not> canceled (drag secondStart)"
    "u_pointerId (drag secondStart) = Some (pointerId (mkEvent 1 ''pointermove'' 110 (- 5, 0) True))"
    "u_active (drag secondStart)" "ev_down (mkEvent 1 ''pointermove'' 110 (- 5, 0) True)"
    by (simp_all add: secondStart_fields mkEvent_fields)
  note a = onDragChange_u_movement [OF main, of tapRecognizer]
  note b = onDragChange_base [OF tapRecognizer_fields(1) main]
  show "u_movement (drag secondMove) = (- 5, 0)"
    "u_intentional (drag secondMove) = (Some 3, None)"
    "movement (drag secondMove) = (- 8, 0)"
    unfolding secondMove_def
    by (simp_all add: a b tapRecognizer_fields tapRecognizer_more secondStart_fields
          movement_defs mkEvent_fields)
qed

text \<open>
  Claim C6 fails on the code. The claim has \<open>_intentional[axis]\<close> become
  \<open>sign(displacement) * threshold[axis]\<close> on the sample of a session where
  \<open>|displacement|\<close> first reaches the threshold. \<open>startDrag\<close> passes its start state
  to \<open>getMovement\<close>, which has no such parameter and reads the state the previous
  session left, so a session after one that crossed the threshold starts with that
  session's \<open>_intentional\<close>. On the recognizer with threshold (3, 3), the first session
  of \<open>tapMove\<close> ends with \<open>_intentional\<close> (3, false). The second session starts, at
  displacement (0, 0), with \<open>_intentional\<close> (3, false) and movement (-3, 0); on its
  sample at displacement (-5, 0), the first to reach the threshold, \<open>_intentional[0]\<close>
  stays 3, where \<open>sign(-5) * 3\<close> is -3, and the movement is (-8, 0).
  \<open>ScrollRecognizer.onStart\<close> writes the start state before it calls \<open>getMovement\<close>.
\<close>

theorem second_session_keeps_previous_intentional:
  "u_intentional (drag tapStart) = (None, None)
   \<and> u_intentional (drag tapMove) = (Some 3, None)
   \<and> u_intentional (drag tapRelease) = (Some 3, None)
   \<and> \<not> u_active (drag tapRelease)
   \<and> u_active (drag secondStart)
   \<and> u_movement (drag secondStart) = (0, 0)
   \<and> u_intentional (drag secondStart) = (Some 3, None)
   \<and> movement (drag secondStart) = (- 3, 0)
   \<and> u_movement (drag secondMove) = (- 5, 0)
   \<and> getIntentionalDisplacement (fst (u_movement (drag secondMove)))
         (fst (threshold (config tapRecognizer))) = Some (- 3)
   \<and> u_intentional (drag secondMove) = (Some 3, None)
   \<and> movement (drag secondMove) = (- 8, 0)"
proof -
  have g: "getIntentionalDisplacement (fst (u_movement (drag secondMove)))
         (fst (threshold (config tapRecognizer))) = Some (- 3)"
    by (simp add: secondMove_fields tapRecognizer_fields getIntentionalDisplacement_def)
  show ?thesis
    by (intro conjI tapStart_more(4) tapMove_fields(4) tapRelease_fields(1) tapRelease_fields(2)
          secondStart_fields(3) secondStart_fields(5) secondStart_fields(6) secondStart_fields(8)
          secondMove_fields g)
qed

section \<open>Offset across sessions\<close>

lemma samples_lastOffset:
  assumes chk: "checkIntentionality r = checkIntentionality_base"
    and "\<forall>e\<in>set es. pointerId e = pid \<and> ev_down e"
    and "\<not> canceled (drag c)" "u_pointerId (drag c) = Some pid" "u_active (drag c)"
  shows "u_pointerId (drag (foldl (onDragChange r) c es)) = Some pid
       \<and> lastOffset (drag (foldl (onDragChange r) c es)) = lastOffset (drag c)"
  using assms(2-)
proof (induction es arbitrary: c)
  case Nil
  then show ?case by simp
next
  case (Cons e es)
  have e: "pointerId e = pid" "ev_down e" using Cons.prems(1) by simp_all
  have pid: "u_pointerId (drag c) = Some (pointerId e)" using Cons.prems(3) e by simp
  note step = onDragChange_sample [OF Cons.prems(2) pid Cons.prems(4) e(2), of r]
  note base = onDragChange_base [OF chk Cons.prems(2) pid Cons.prems(4) e(2)]
  have rest: "\<forall>e\<in>set es. pointerId e = pid \<and> ev_down e" using Cons.prems(1) by simp
  have pid': "u_pointerId (drag (onDragChange r c e)) = Some pid"
    using step(3) Cons.prems(3) by simp
  note ih = Cons.IH [OF rest step(2) pid' base(8)]
  show ?case
    using ih by (simp add: step(5))
qed

lemma endMovement_base:
  assumes chk: "checkIntentionality r = checkIntentionality_base"
  shows "endMovement r s =
     thresholdedMovement r
       (intentionalDisplacements r s (getInternalMovement r (values_v s) s))
       (getInternalMovement r (values_v s) s)"
  by (simp add: endMovement_def Let_def chk checkIntentionality_base_def)

lemma session_offset:
  assumes chk: "checkIntentionality r = checkIntentionality_base"
    and cmp: "sessionCompleted (e0, es, e1)"
  shows "offset (drag (dragSession r c e0 es e1)) =
           computeRubberband r (addV (sessionMovement r c e0 es) (offset (drag c))) (0, 0)"
    and "lastOffset (drag (dragSession r c e0 es e1)) = offset (drag c)"
    and "movement (drag (dragSession r c e0 es e1)) =
           computeRubberband r
             (addV (sessionMovement r c e0 es) (u_initial (drag (dragSession r c e0 es e1))))
             (0, 0)"
proof -
  let ?c2 = "foldl (onDragChange r) (startDrag r c e0) es"
  have es: "\<forall>e\<in>set es. pointerId e = pointerId e0 \<and> ev_down e" and e1: "pointerId e1 = pointerId e0"
    using cmp by simp_all
  note inv = samples_lastOffset [OF chk es startDrag_fields(2) startDrag_fields(3)
      startDrag_base(8) [OF chk], of c]
  have pid: "Some (pointerId e1) = u_pointerId (drag ?c2)"
    using inv e1 by simp
  have lo: "lastOffset (drag ?c2) = offset (drag c)"
    using inv by (simp add: startDrag_fields)
  note en = onDragEnd_base [OF chk pid]
  show "offset (drag (dragSession r c e0 es e1)) =
           computeRubberband r (addV (sessionMovement r c e0 es) (offset (drag c))) (0, 0)"
    by (simp add: dragSession_def en(6) lo sessionMovement_def endMovement_base [OF chk])
  show "lastOffset (drag (dragSession r c e0 es e1)) = offset (drag c)"
    by (simp add: dragSession_def en(9) lo)
  show "movement (drag (dragSession r c e0 es e1)) =
           computeRubberband r
             (addV (sessionMovement r c e0 es) (u_initial (drag (dragSession r c e0 es e1))))
             (0, 0)"
    by (simp add: dragSession_def en(5) en(4) sessionMovement_def endMovement_base [OF chk])
qed

lemma sessions_offset:
  assumes chk: "checkIntentionality r = checkIntentionality_base"
  shows "\<forall>s\<in>set ss. sessionCompleted s \<Longrightarrow>
     offset (drag (dragSessions r c ss)) =
       accumulateOffset r (offset (drag c)) (sessionMovements r c ss)"
proof (induction ss arbitrary: c)
  case Nil
  then show ?case by simp
next
  case (Cons s ss)
  obtain e0 es e1 where s: "s = (e0, es, e1)" by (cases s) auto
  have cmp: "sessionCompleted (e0, es, e1)" using Cons.prems s by simp
  have rest: "\<forall>s\<in>set ss. sessionCompleted s" using Cons.prems by simp
  show ?case
    using Cons.IH [OF rest, of "dragSession r c e0 es e1"]
    by (simp add: s session_offset(1) [OF chk cmp])
qed

lemma computeRubberband_unbounded:
  "bounds (config r) = ((None, None), (None, None)) \<Longrightarrow> computeRubberband r v rb = v"
  by (simp add: computeRubberband_def rubberbandIfOutOfBounds_def minMax_def Let_def)

lemma accumulateOffset_unbounded:
  "bounds (config r) = ((None, None), (None, None)) \<Longrightarrow>
   accumulateOffset r off ms = foldl addV off ms"
  by (induction ms arbitrary: off)
     (simp_all add: computeRubberband_unbounded addV_def add.commute)

lemma boundedRecognizer_fields:
  "checkIntentionality boundedRecognizer = checkIntentionality_base"
  "getInternalMovement boundedRecognizer = coordinatesInternalMovement"
  "threshold (config boundedRecognizer) = (0, 0)"
  "rubberband (config boundedRecognizer) = (0, 0)"
  "bounds (config boundedRecognizer) = ((Some 0, Some 100), (None, None))"
  "cfg_initial (config boundedRecognizer) = (0, 0)"
  by (simp_all add: boundedRecognizer_def dragRecognizer_def config_defs)

lemma boundedSessions_run:
  "movement (drag (dragSessions boundedRecognizer initialController [firstSession])) = (100, 0)"
  "offset (drag (dragSessions boundedRecognizer initialController [firstSession])) = (100, 0)"
  "movement (drag (dragSessions boundedRecognizer initialController
      [firstSession, secondSession])) = (0, 0)"
  "offset (drag (dragSessions boundedRecognizer initialController
      [firstSession, secondSession])) = (50, 0)"
  "sessionMovements boundedRecognizer initialController [firstSession, secondSession]
     = [(150, 0), (- 50, 0)]"
proof -
  note chk = boundedRecognizer_fields(1)
  define A1 where "A1 = startDrag boundedRecognizer initialController
      (mkEvent 1 ''pointerdown'' 0 (0, 0) True)"
  define A2 where "A2 = onDragChange boundedRecognizer A1
      (mkEvent 1 ''pointermove'' 10 (150, 0) True)"
  define A3 where "A3 = onDragEnd boundedRecognizer A2 (mkEvent 1 ''pointerup'' 20 (150, 0) False)"
  define B1 where "B1 = startDrag boundedRecognizer A3
      (mkEvent 1 ''pointerdown'' 100 (200, 0) True)"
  define B2 where "B2 = onDragChange boundedRecognizer B1
      (mkEvent 1 ''pointermove'' 110 (150, 0) True)"
  define B3 where "B3 = onDragEnd boundedRecognizer B2 (mkEvent 1 ''pointerup'' 120 (150, 0) False)"
  have A1: "\<not> canceled (drag A1)" "u_pointerId (drag A1) = Some 1" "u_active (drag A1)"
    "initial (drag A1) = (0, 0)" "lastOffset (drag A1) = (0, 0)"
    "u_intentional (drag A1) = (Some 0, Some 0)" "u_initial (drag A1) = (0, 0)"
    unfolding A1_def
    by (simp_all add: startDrag_fields startDrag_base [OF chk] boundedRecognizer_fields
          initialController_fields movement_defs mkEvent_fields)
  have mainA: "\<not> canceled (drag A1)"
    "u_pointerId (drag A1) = Some (pointerId (mkEvent 1 ''pointermove'' 10 (150, 0) True))"
    "u_active (drag A1)" "ev_down (mkEvent 1 ''pointermove'' 10 (150, 0) True)"
    by (simp_all add: A1 mkEvent_fields)
  note a = onDragChange_sample [OF mainA, of boundedRecognizer]
  note b = onDragChange_base [OF chk mainA]
  have A2: "u_pointerId (drag A2) = Some 1" "initial (drag A2) = (0, 0)"
    "lastOffset (drag A2) = (0, 0)" "values_v (drag A2) = (150, 0)"
    "u_intentional (drag A2) = (Some 0, Some 0)" "u_initial (drag A2) = (0, 0)"
    unfolding A2_def
    by (simp_all add: a b A1 boundedRecognizer_fields movement_defs mkEvent_fields)
  have pidA: "Some (pointerId (mkEvent 1 ''pointerup'' 20 (150, 0) False)) = u_pointerId (drag A2)"
    by (simp add: A2 mkEvent_fields)
  note en = onDragEnd_base [OF chk pidA]
  have A3: "u_intentional (drag A3) = (Some 0, Some 0)" "initial (drag A3) = (0, 0)"
    "u_initial (drag A3) = (0, 0)" "lastOffset (drag A3) = (0, 0)"
    "offset (drag A3) = (100, 0)" "movement (drag A3) = (100, 0)" "\<not> u_active (drag A3)"
    unfolding A3_def
    by (simp_all add: en A2 boundedRecognizer_fields movement_defs)
  have mA: "sessionMovement boundedRecognizer initialController
      (mkEvent 1 ''pointerdown'' 0 (0, 0) True) [mkEvent 1 ''pointermove'' 10 (150, 0) True]
      = (150, 0)"
    unfolding sessionMovement_def
    by (simp add: A1_def [symmetric] A2_def [symmetric] endMovement_base [OF chk] A2
          boundedRecognizer_fields movement_defs)
  have B1: "\<not> canceled (drag B1)" "u_pointerId (drag B1) = Some 1" "u_active (drag B1)"
    "initial (drag B1) = (200, 0)" "lastOffset (drag B1) = (100, 0)"
    "u_intentional (drag B1) = (Some 0, Some 0)" "u_initial (drag B1) = (0, 0)"
    unfolding B1_def
    by (simp_all add: startDrag_fields startDrag_base [OF chk] boundedRecognizer_fields
          A3 movement_defs mkEvent_fields)
  have mainB: "\<not> canceled (drag B1)"
    "u_pointerId (drag B1) = Some (pointerId (mkEvent 1 ''pointermove'' 110 (150, 0) True))"
    "u_active (drag B1)" "ev_down (mkEvent 1 ''pointermove'' 110 (150, 0) True)"
    by (simp_all add: B1 mkEvent_fields)
  note a' = onDragChange_sample [OF mainB, of boundedRecognizer]
  note b' = onDragChange_base [OF chk mainB]
  have B2: "u_pointerId (drag B2) = Some 1" "initial (drag B2) = (200, 0)"
    "lastOffset (drag B2) = (100, 0)" "values_v (drag B2) = (150, 0)"
    "u_intentional (drag B2) = (Some 0, Some 0)" "u_initial (drag B2) = (0, 0)"
    unfolding B2_def
    by (simp_all add: a' b' B1 boundedRecognizer_fields movement_defs mkEvent_fields)
  have pidB: "Some (pointerId (mkEvent 1 ''pointerup'' 120 (150, 0) False)) = u_pointerId (drag B2)"
    by (simp add: B2 mkEvent_fields)
  note en' = onDragEnd_base [OF chk pidB]
  have B3: "offset (drag B3) = (50, 0)" "movement (drag B3) = (0, 0)"
    unfolding B3_def
    by (simp_all add: en' B2 boundedRecognizer_fields movement_defs)
  have mB: "sessionMovement boundedRecognizer A3
      (mkEvent 1 ''pointerdown'' 100 (200, 0) True) [mkEvent 1 ''pointermove'' 110 (150, 0) True]
      = (- 50, 0)"
    unfolding sessionMovement_def
    by (simp add: B1_def [symmetric] B2_def [symmetric] endMovement_base [OF chk] B2
          boundedRecognizer_fields movement_defs)
  have s1: "dragSessions boundedRecognizer initialController [firstSession] = A3"
    by (simp add: firstSession_def dragSession_def A3_def A2_def A1_def)
  have s2: "dragSessions boundedRecognizer initialController [firstSession, secondSession] = B3"
    by (simp add: firstSession_def secondSession_def dragSession_def
          B3_def B2_def B1_def A3_def A2_def A1_def)
  show "movement (drag (dragSessions boundedRecognizer initialController [firstSession])) = (100, 0)"
    "offset (drag (dragSessions boundedRecognizer initialController [firstSession])) = (100, 0)"
    by (simp_all add: s1 A3)
  show "movement (drag (dragSessions boundedRecognizer initialController
      [firstSession, secondSession])) = (0, 0)"
    "offset (drag (dragSessions boundedRecognizer initialController
      [firstSession, secondSession])) = (50, 0)"
    by (simp_all add: s2 B3)
  have d1: "dragSession boundedRecognizer initialController
      (mkEvent 1 ''pointerdown'' 0 (0, 0) True) [mkEvent 1 ''pointermove'' 10 (150, 0) True]
      (mkEvent 1 ''pointerup'' 20 (150, 0) False) = A3"
    by (simp add: dragSession_def A3_def A2_def A1_def)
  show "sessionMovements boundedRecognizer initialController [firstSession, secondSession]
     = [(150, 0), (- 50, 0)]"
    by (simp add: firstSession_def secondSession_def d1 mA mB)
qed

lemma sessions_completed:
  "sessionCompleted firstSession" "sessionCompleted secondSession"
  by (simp_all add: firstSession_def secondSession_def mkEvent_fields)

text \<open>
  Claim C1, as amended. \<open>getStartGestureState\<close> sets both \<open>offset\<close> and
  \<open>lastOffset\<close> to the offset left by the previous session, and \<open>getMovement\<close>
  computes the offset as the rubberbanded value of \<open>lastOffset\<close> plus the movement.
  For a recognizer that does not block, a session completed by a release of its
  pointer keeps the previous offset as \<open>lastOffset\<close> and leaves as offset the
  previous offset plus the session's final movement, clamped to the bounds (the
  rubberband at factor 0); the movement it reports is that final movement plus
  \<open>_initial\<close>, clamped likewise. So after N completed sessions the offset is the clamp
  applied session by session, and where no bounds are configured it is the previous
  offset plus the sum of the sessions' final movements.
\<close>

theorem offset_accumulates_per_session:
  assumes "checkIntentionality r = checkIntentionality_base"
    and "\<forall>s\<in>set ss. sessionCompleted s"
  shows "offset (getStartGestureState s0 v e) = offset s0
       \<and> lastOffset (getStartGestureState s0 v e) = offset s0
       \<and> (\<exists>q. m_rest (snd (getMovement r s0 v)) = Some q
              \<and> r_offset q =
                  computeRubberband r
                    (addV (thresholdedMovement r
                             (intentionalDisplacements r s0 (getInternalMovement r v s0))
                             (getInternalMovement r v s0))
                          (lastOffset s0))
                    (if u_active s0 then rubberband (config r) else (0, 0)))
       \<and> offset (drag (dragSessions r c ss)) =
           accumulateOffset r (offset (drag c)) (sessionMovements r c ss)
       \<and> (bounds (config r) = ((None, None), (None, None)) \<longrightarrow>
            offset (drag (dragSessions r c ss)) =
              foldl addV (offset (drag c)) (sessionMovements r c ss))
       \<and> (\<forall>e0 es e1. sessionCompleted (e0, es, e1) \<longrightarrow>
            lastOffset (drag (dragSession r c e0 es e1)) = offset (drag c)
            \<and> offset (drag (dragSession r c e0 es e1)) =
                computeRubberband r (addV (sessionMovement r c e0 es) (offset (drag c))) (0, 0)
            \<and> movement (drag (dragSession r c e0 es e1)) =
                computeRubberband r
                  (addV (sessionMovement r c e0 es)
                        (u_initial (drag (dragSession r c e0 es e1))))
                  (0, 0))"
proof -
  have p1: "offset (getStartGestureState s0 v e) = offset s0"
    "lastOffset (getStartGestureState s0 v e) = offset s0"
    by (simp_all add: getStartGestureState_def)
  have p2: "\<exists>q. m_rest (snd (getMovement r s0 v)) = Some q
              \<and> r_offset q =
                  computeRubberband r
                    (addV (thresholdedMovement r
                             (intentionalDisplacements r s0 (getInternalMovement r v s0))
                             (getInternalMovement r v s0))
                          (lastOffset s0))
                    (if u_active s0 then rubberband (config r) else (0, 0))"
    by (simp add: getMovement_base [OF assms(1)])
  have p3: "offset (drag (dragSessions r c ss)) =
           accumulateOffset r (offset (drag c)) (sessionMovements r c ss)"
    by (rule sessions_offset [OF assms])
  have p4: "bounds (config r) = ((None, None), (None, None)) \<longrightarrow>
            offset (drag (dragSessions r c ss)) =
              foldl addV (offset (drag c)) (sessionMovements r c ss)"
    by (simp add: p3 accumulateOffset_unbounded)
  have p5: "\<forall>e0 es e1. sessionCompleted (e0, es, e1) \<longrightarrow>
            lastOffset (drag (dragSession r c e0 es e1)) = offset (drag c)
            \<and> offset (drag (dragSession r c e0 es e1)) =
                computeRubberband r (addV (sessionMovement r c e0 es) (offset (drag c))) (0, 0)
            \<and> movement (drag (dragSession r c e0 es e1)) =
                computeRubberband r
                  (addV (sessionMovement r c e0 es)
                        (u_initial (drag (dragSession r c e0 es e1))))
                  (0, 0)"
    using session_offset [OF assms(1)] by blast
  show ?thesis
    by (intro conjI p1 p2 p3 p4 p5)
qed

theorem offset_accumulates_per_session_witness:
  "checkIntentionality boundedRecognizer = checkIntentionality_base
   \<and> sessionCompleted firstSession \<and> sessionCompleted secondSession
   \<and> offset (drag (dragSessions boundedRecognizer initialController
        [firstSession, secondSession]))
       = accumulateOffset boundedRecognizer (offset (drag initialController))
           (sessionMovements boundedRecognizer initialController [firstSession, secondSession])
   \<and> accumulateOffset boundedRecognizer (0, 0) [(150, 0), (- 50, 0)] = (50, 0)
   \<and> checkIntentionality defaultRecognizer = checkIntentionality_base
   \<and> bounds (config defaultRecognizer) = ((None, None), (None, None))
   \<and> offset (drag (dragSessions defaultRecognizer initialController
        [firstSession, secondSession]))
       = foldl addV (offset (drag initialController))
           (sessionMovements defaultRecognizer initialController [firstSession, secondSession])"
proof -
  have cmp: "\<forall>s\<in>set [firstSession, secondSession]. sessionCompleted s"
    by (simp add: sessions_completed)
  note t1 = offset_accumulates_per_session [OF boundedRecognizer_fields(1) cmp,
      of getInitialState "(0, 0)" "mkEvent 1 ''pointerdown'' 0 (0, 0) True" initialController]
  note t2 = offset_accumulates_per_session [OF defaultRecognizer_fields(1) cmp,
      of getInitialState "(0, 0)" "mkEvent 1 ''pointerdown'' 0 (0, 0) True" initialController]
  have a1: "offset (drag (dragSessions boundedRecognizer initialController
        [firstSession, secondSession]))
       = accumulateOffset boundedRecognizer (offset (drag initialController))
           (sessionMovements boundedRecognizer initialController [firstSession, secondSession])"
    using t1 by blast
  have a2: "accumulateOffset boundedRecognizer (0, 0) [(150, 0), (- 50, 0)] = (50, 0)"
    by (simp add: boundedRecognizer_fields movement_defs)
  have a3: "offset (drag (dragSessions defaultRecognizer initialController
        [firstSession, secondSession]))
       = foldl addV (offset (drag initialController))
           (sessionMovements defaultRecognizer initialController [firstSession, secondSession])"
    using t2 defaultRecognizer_fields(6) by blast
  show ?thesis
    by (intro conjI boundedRecognizer_fields(1) sessions_completed a1 a2
          defaultRecognizer_fields(1) defaultRecognizer_fields(6) a3)
qed

text \<open>
  The claim as stated fails where a bound is reached. With x bounded to [0, 100], the
  first session ends 150 px to the right and the second 50 px to the left of where
  they began: the sessions report the movements (100, 0) and (0, 0), before the clamp
  (150, 0) and (-50, 0), and either sum is rubberbanded to (100, 0), but the offset
  after the two sessions is (50, 0).
\<close>

theorem offset_bounded_sessions_counterexample:
  "sessionCompleted firstSession \<and> sessionCompleted secondSession
   \<and> movement (drag (dragSessions boundedRecognizer initialController [firstSession])) = (100, 0)
   \<and> movement (drag (dragSessions boundedRecognizer initialController
        [firstSession, secondSession])) = (0, 0)
   \<and> computeRubberband boundedRecognizer (addV (100, 0) (0, 0)) (0, 0) = (100, 0)
   \<and> sessionMovements boundedRecognizer initialController [firstSession, secondSession]
       = [(150, 0), (- 50, 0)]
   \<and> computeRubberband boundedRecognizer (addV (150, 0) (- 50, 0)) (0, 0) = (100, 0)
   \<and> offset (drag (dragSessions boundedRecognizer initialController
        [firstSession, secondSession])) = (50, 0)"
proof -
  have c1: "computeRubberband boundedRecognizer (addV (100, 0) (0, 0)) (0, 0) = (100, 0)"
    by (simp add: boundedRecognizer_fields movement_defs)
  have c2: "computeRubberband boundedRecognizer (addV (150, 0) (- 50, 0)) (0, 0) = (100, 0)"
    by (simp add: boundedRecognizer_fields movement_defs)
  show ?thesis
    by (intro conjI sessions_completed boundedSessions_run(1) boundedSessions_run(3) c1
          boundedSessions_run(5) c2 boundedSessions_run(4))
qed

section \<open>Further facts\<close>

text \<open>
  \<open>getIntentional\<close> of the math library and \<open>getIntentionalDisplacement\<close> of the
  recognizer are the same function.
\<close>

lemma getIntentional_eq: "getIntentional m t = getIntentionalDisplacement m t"
  by (simp add: getIntentional_def getIntentionalDisplacement_def Let_def)

lemma quickSwipeMove_more:
  "initial (drag quickSwipeMove) = (0, 0)"
  "lastOffset (drag quickSwipeMove) = (0, 0)"
  "values_v (drag quickSwipeMove) = (80, 5)"
  "u_initial (drag quickSwipeMove) = (0, 0)"
proof -
  have main: "\<not> canceled (drag quickSwipeStart)"
    "u_pointerId (drag quickSwipeStart) = Some (pointerId (mkEvent 1 ''pointermove'' 50 (80, 5) True))"
    "u_active (drag quickSwipeStart)" "ev_down (mkEvent 1 ''pointermove'' 50 (80, 5) True)"
    by (simp_all add: quickSwipeStart_fields mkEvent_fields)
  note a = onDragChange_sample [OF main, of defaultRecognizer]
  note b = onDragChange_base [OF defaultRecognizer_fields(1) main]
  show "initial (drag quickSwipeMove) = (0, 0)"
    "lastOffset (drag quickSwipeMove) = (0, 0)"
    "values_v (drag quickSwipeMove) = (80, 5)"
    "u_initial (drag quickSwipeMove) = (0, 0)"
    unfolding quickSwipeMove_def
    by (simp_all add: a b defaultRecognizer_fields quickSwipeStart_fields
          movement_defs mkEvent_fields)
qed

text \<open>
  The first frame of a later session. \<open>startDrag\<close> passes its start state to
  \<open>getMovement\<close>, which has no such parameter and reads the state of the previous
  session instead. After a session that left the offset (80, 5), a pointer-down at
  (0, 0) therefore starts the next session with \<open>lastOffset\<close> (80, 5) but with the
  offset (0, 0), computed from the previous session's \<open>lastOffset\<close> and pointer
  origin; the first sample or the release of the session computes it from
  \<open>lastOffset\<close> again.
\<close>

lemma start_frame_reads_previous_state:
  "offset (drag (onDragEnd defaultRecognizer quickSwipeMove
       (mkEvent 1 ''pointerup'' 100 (80, 5) False))) = (80, 5)"
  "offset (drag (startDrag defaultRecognizer
       (onDragEnd defaultRecognizer quickSwipeMove (mkEvent 1 ''pointerup'' 100 (80, 5) False))
       (mkEvent 1 ''pointerdown'' 500 (0, 0) True))) = (0, 0)"
  "lastOffset (drag (startDrag defaultRecognizer
       (onDragEnd defaultRecognizer quickSwipeMove (mkEvent 1 ''pointerup'' 100 (80, 5) False))
       (mkEvent 1 ''pointerdown'' 500 (0, 0) True))) = (80, 5)"
proof -
  note chk = defaultRecognizer_fields(1)
  define E where "E = onDragEnd defaultRecognizer quickSwipeMove
      (mkEvent 1 ''pointerup'' 100 (80, 5) False)"
  have pid: "Some (pointerId (mkEvent 1 ''pointerup'' 100 (80, 5) False))
      = u_pointerId (drag quickSwipeMove)"
    by (simp add: quickSwipeMove_fields mkEvent_fields)
  note en = onDragEnd_base [OF chk pid]
  have E: "u_intentional (drag E) = (Some 0, Some 0)" "initial (drag E) = (0, 0)"
    "u_initial (drag E) = (0, 0)" "lastOffset (drag E) = (0, 0)"
    "offset (drag E) = (80, 5)" "\<not> u_active (drag E)"
    unfolding E_def
    by (simp_all add: en quickSwipeMove_fields quickSwipeMove_more defaultRecognizer_fields
          movement_defs)
  show "offset (drag (onDragEnd defaultRecognizer quickSwipeMove
       (mkEvent 1 ''pointerup'' 100 (80, 5) False))) = (80, 5)"
    using E(5) by (simp add: E_def)
  have "offset (drag (startDrag defaultRecognizer E (mkEvent 1 ''pointerdown'' 500 (0, 0) True)))
      = (0, 0)"
    by (simp add: startDrag_base [OF chk] defaultRecognizer_fields E movement_defs mkEvent_fields)
  then show "offset (drag (startDrag defaultRecognizer
       (onDragEnd defaultRecognizer quickSwipeMove (mkEvent 1 ''pointerup'' 100 (80, 5) False))
       (mkEvent 1 ''pointerdown'' 500 (0, 0) True))) = (0, 0)"
    by (simp add: E_def)
  have "lastOffset (drag (startDrag defaultRecognizer E
       (mkEvent 1 ''pointerdown'' 500 (0, 0) True))) = (80, 5)"
    by (simp add: startDrag_fields E)
  then show "lastOffset (drag (startDrag defaultRecognizer
       (onDragEnd defaultRecognizer quickSwipeMove (mkEvent 1 ''pointerup'' 100 (80, 5) False))
       (mkEvent 1 ''pointerdown'' 500 (0, 0) True))) = (80, 5)"
    by (simp add: E_def)
qed

text \<open>
  A release before the delay timer fires does not always cancel the pending start.
  \<open>onDragEnd\<close> clears the timer only through \<open>clean\<close>, which \<open>fireGestureHandler\<close>
  calls only when it invokes the handler. After a first press that was neither a tap
  nor intentional, the release of the second press does not invoke the handler: the
  timer of the second press stays pending, and when it fires the drag starts although
  the pointer has been released.
\<close>

lemma hypot_three: "hypot [12 / 5, 9 / 5] = 3"
proof -
  have "sum_list (map (\<lambda>x. x * x) [12 / 5, 9 / 5 :: real]) = 3\<^sup>2"
    by (simp add: power2_eq_square)
  then show ?thesis
    unfolding hypot_def by (simp del: sum_list.Cons)
qed

lemma startDrag_unfired:
  assumes chk: "checkIntentionality r = checkIntentionality_base"
    and "intentionalDisplacements r (drag c) (getInternalMovement r (ev_values e) (drag c))
           = (None, None)"
  shows "timers (startDrag r c e) = timers c"
    and "timeouts (startDrag r c e) = timeouts c"
    and "next_timer (startDrag r c e) = next_timer c"
    and "calls (startDrag r c e) = calls c"
    and "\<not> u_delayedEvent (drag (startDrag r c e))"
  using assms(2)
  by (simp_all add: startDrag_def Let_def fireGestureHandler_def getMovement_base [OF chk]
        assignMovement_rest updateSharedState_event_def assignPayload_def
        getStartGestureState_def getInitialState_def)

lemma onDragChange_unfired:
  assumes chk: "checkIntentionality r = checkIntentionality_base"
    and main: "\<not> canceled (drag c)" "u_pointerId (drag c) = Some (pointerId e)"
      "u_active (drag c)" "ev_down e"
    and "intentionalDisplacements r (drag c) (getInternalMovement r (ev_values e) (drag c))
           = (None, None)"
  shows "timers (onDragChange r c e) = timers c"
    and "timeouts (onDragChange r c e) = timeouts c"
    and "next_timer (onDragChange r c e) = next_timer c"
    and "calls (onDragChange r c e) = calls c"
    and "u_delayedEvent (drag (onDragChange r c e)) = u_delayedEvent (drag c)"
  using main assms(6)
  by (simp_all add: onDragChange_def Let_def fireGestureHandler_def
        getKinematics_parts getMovement_base [OF chk] assignMovement_rest
        assignKinematics_keeps updateSharedState_event_def assignPayload_def)

lemma onDragEnd_unfired:
  assumes chk: "checkIntentionality r = checkIntentionality_base"
    and pid: "Some (pointerId e) = u_pointerId (drag c)"
    and nt: "\<not> u_isTap (drag c)"
    and "intentionalDisplacements r ((drag c)\<lparr>u_active := False\<rparr>)
           (getInternalMovement r (values_v (drag c)) ((drag c)\<lparr>u_active := False\<rparr>))
           = (None, None)"
  shows "timers (onDragEnd r c e) = timers c"
    and "timeouts (onDragEnd r c e) = timeouts c"
    and "next_timer (onDragEnd r c e) = next_timer c"
    and "calls (onDragEnd r c e) = calls c"
    and "u_delayedEvent (drag (onDragEnd r c e)) = u_delayedEvent (drag c)"
  using pid nt assms(4)
  by (simp_all add: onDragEnd_def endFrame_def Let_def fireGestureHandler_def
        getMovement_base [OF chk] assignMovement_rest updateSharedState_up_def
        assignPayload_def)

lemma timerFires_pending:
  "find (\<lambda>t. fst t = h) (timers c) = Some (h, ms, e) \<Longrightarrow>
   timerFires r h c = startDrag r (c\<lparr>timers := filter (\<lambda>t. fst t \<noteq> h) (timers c)\<rparr>) e"
  by (simp add: timerFires_def)

lemma delayTapRecognizer_fields:
  "checkIntentionality delayTapRecognizer = checkIntentionality_base"
  "getInternalMovement delayTapRecognizer = coordinatesInternalMovement"
  "debounced delayTapRecognizer"
  "recognizer_enabled delayTapRecognizer"
  "threshold (config delayTapRecognizer) = (3, 3)"
  "rubberband (config delayTapRecognizer) = (0, 0)"
  "bounds (config delayTapRecognizer) = ((None, None), (None, None))"
  "cfg_initial (config delayTapRecognizer) = (0, 0)"
  "filterTaps (config delayTapRecognizer)"
  "delay (config delayTapRecognizer) = 180"
  by (simp_all add: delayTapRecognizer_def dragRecognizer_def config_defs recognizer_enabled_def)

lemma release_before_timer_keeps_timer:
  "calls firstPress = []"
  "\<not> tap (drag firstPress)"
  "timers secondPress = [(1, 180, mkEvent 1 ''pointerdown'' 1000 (0, 0) True)]"
  "calls secondPress = []"
  "u_active (drag (timerFires delayTapRecognizer 1 secondPress))"
proof -
  note chk = delayTapRecognizer_fields(1)
  define D0 where "D0 = onDragStart delayTapRecognizer initialController
      (mkEvent 1 ''pointerdown'' 0 (0, 0) True)"
  define D1 where "D1 = timerFires delayTapRecognizer 0 D0"
  define D2 where "D2 = onDragChange delayTapRecognizer D1
      (mkEvent 1 ''pointermove'' 200 (12 / 5, 9 / 5) True)"
  define D3 where "D3 = onDragEnd delayTapRecognizer D2
      (mkEvent 1 ''pointerup'' 300 (12 / 5, 9 / 5) False)"
  define D4 where "D4 = onDragStart delayTapRecognizer D3
      (mkEvent 1 ''pointerdown'' 1000 (0, 0) True)"
  define D5 where "D5 = onDragEnd delayTapRecognizer D4 (mkEvent 1 ''pointerup'' 1050 (0, 0) False)"
  have d: "delay (config delayTapRecognizer) > 0"
    by (simp add: delayTapRecognizer_fields)
  note f0 = onDragStart_delayed_fields [OF d delayTapRecognizer_fields(4)
      initialController_fields(7), of "mkEvent 1 ''pointerdown'' 0 (0, 0) True"]
  have D0: "drag D0 = (drag initialController)\<lparr>u_pointerId := Some 1, u_delayedEvent := True\<rparr>"
    "calls D0 = []" "timers D0 = [(0, 180, mkEvent 1 ''pointerdown'' 0 (0, 0) True)]"
    "timeouts D0 = Some 0"
    unfolding D0_def
    by (simp_all add: f0 initialController_calls initialController_timers
          delayTapRecognizer_fields mkEvent_fields)
  have nx0: "next_timer D0 = 1"
    unfolding D0_def
    by (simp add: onDragStart_delayed [OF d delayTapRecognizer_fields(4)
          initialController_fields(7)] setTimeout_def setListeners_def initialController_timers)
  have D1eq: "D1 = startDrag delayTapRecognizer (D0\<lparr>timers := []\<rparr>)
      (mkEvent 1 ''pointerdown'' 0 (0, 0) True)"
    unfolding D1_def
    by (simp add: timerFires_def D0)
  have i1: "intentionalDisplacements delayTapRecognizer (drag (D0\<lparr>timers := []\<rparr>))
      (getInternalMovement delayTapRecognizer (ev_values (mkEvent 1 ''pointerdown'' 0 (0, 0) True))
         (drag (D0\<lparr>timers := []\<rparr>))) = (None, None)"
    by (simp add: D0 delayTapRecognizer_fields initialController_fields movement_defs
          mkEvent_fields)
  note u1 = startDrag_unfired [OF chk i1]
  have D1: "\<not> canceled (drag D1)" "u_pointerId (drag D1) = Some 1" "u_active (drag D1)"
    "initial (drag D1) = (0, 0)" "u_intentional (drag D1) = (None, None)"
    "u_isTap (drag D1)" "timers D1 = []" "next_timer D1 = 1" "calls D1 = []"
    unfolding D1eq
    by (simp_all add: startDrag_fields startDrag_base [OF chk] u1 D0 nx0
          delayTapRecognizer_fields initialController_fields movement_defs mkEvent_fields)
  have main2: "\<not> canceled (drag D1)"
    "u_pointerId (drag D1) = Some (pointerId (mkEvent 1 ''pointermove'' 200 (12 / 5, 9 / 5) True))"
    "u_active (drag D1)" "ev_down (mkEvent 1 ''pointermove'' 200 (12 / 5, 9 / 5) True)"
    by (simp_all add: D1 mkEvent_fields)
  have i2: "intentionalDisplacements delayTapRecognizer (drag D1)
      (getInternalMovement delayTapRecognizer
         (ev_values (mkEvent 1 ''pointermove'' 200 (12 / 5, 9 / 5) True)) (drag D1)) = (None, None)"
    by (simp add: D1 delayTapRecognizer_fields movement_defs mkEvent_fields)
  note a2 = onDragChange_sample [OF main2, of delayTapRecognizer]
  note b2 = onDragChange_base [OF chk main2]
  note u2 = onDragChange_unfired [OF chk main2 i2]
  have dist: "calculateDistance (list_of_vec2 (getInternalMovement delayTapRecognizer
      (ev_values (mkEvent 1 ''pointermove'' 200 (12 / 5, 9 / 5) True)) (drag D1))) = 3"
    by (simp add: D1 delayTapRecognizer_fields coordinatesInternalMovement_def subV_def
          mkEvent_fields list_of_vec2_def calculateDistance_def hypot_three)
  have D2: "u_pointerId (drag D2) = Some 1" "initial (drag D2) = (0, 0)"
    "u_intentional (drag D2) = (None, None)" "values_v (drag D2) = (12 / 5, 9 / 5)"
    "\<not> u_isTap (drag D2)" "timers D2 = []" "next_timer D2 = 1" "calls D2 = []"
    unfolding D2_def
    by (simp_all add: a2 b2 u2 i2 [simplified mkEvent_fields] dist [simplified mkEvent_fields]
          D1 TAP_DISTANCE_THRESHOLD_def mkEvent_fields)
  have pid3: "Some (pointerId (mkEvent 1 ''pointerup'' 300 (12 / 5, 9 / 5) False))
      = u_pointerId (drag D2)"
    by (simp add: D2 mkEvent_fields)
  have i3: "intentionalDisplacements delayTapRecognizer ((drag D2)\<lparr>u_active := False\<rparr>)
      (getInternalMovement delayTapRecognizer (values_v (drag D2))
         ((drag D2)\<lparr>u_active := False\<rparr>)) = (None, None)"
    by (simp add: D2 delayTapRecognizer_fields movement_defs)
  note e3 = onDragEnd_base [OF chk pid3]
  note u3 = onDragEnd_unfired [OF chk pid3 D2(5) i3]
  have D3: "\<not> u_active (drag D3)" "initial (drag D3) = (0, 0)"
    "u_intentional (drag D3) = (None, None)" "values_v (drag D3) = (12 / 5, 9 / 5)"
    "\<not> u_isTap (drag D3)" "\<not> tap (drag D3)" "timers D3 = []" "next_timer D3 = 1"
    "calls D3 = []"
    unfolding D3_def
    by (simp_all add: e3 u3 i3 [simplified D2(4)] D2)
  have fp: "firstPress = D3"
    by (simp add: firstPress_def D3_def D2_def D1_def D0_def)
  show "calls firstPress = []" "\<not> tap (drag firstPress)"
    by (simp_all add: fp D3)
  note f4 = onDragStart_delayed_fields [OF d delayTapRecognizer_fields(4) D3(1),
      of "mkEvent 1 ''pointerdown'' 1000 (0, 0) True"]
  have D4: "u_pointerId (drag D4) = Some 1" "initial (drag D4) = (0, 0)"
    "u_intentional (drag D4) = (None, None)" "values_v (drag D4) = (12 / 5, 9 / 5)"
    "\<not> u_isTap (drag D4)" "calls D4 = []"
    "timers D4 = [(1, 180, mkEvent 1 ''pointerdown'' 1000 (0, 0) True)]"
    unfolding D4_def
    by (simp_all add: f4 D3 delayTapRecognizer_fields mkEvent_fields)
  have pid5: "Some (pointerId (mkEvent 1 ''pointerup'' 1050 (0, 0) False)) = u_pointerId (drag D4)"
    by (simp add: D4 mkEvent_fields)
  have i5: "intentionalDisplacements delayTapRecognizer ((drag D4)\<lparr>u_active := False\<rparr>)
      (getInternalMovement delayTapRecognizer (values_v (drag D4))
         ((drag D4)\<lparr>u_active := False\<rparr>)) = (None, None)"
    by (simp add: D4 delayTapRecognizer_fields movement_defs)
  note u5 = onDragEnd_unfired [OF chk pid5 D4(5) i5]
  have D5: "timers D5 = [(1, 180, mkEvent 1 ''pointerdown'' 1000 (0, 0) True)]" "calls D5 = []"
    unfolding D5_def by (simp_all add: u5 D4)
  have sp: "secondPress = D5"
    by (simp add: secondPress_def D5_def D4_def fp)
  show "timers secondPress = [(1, 180, mkEvent 1 ''pointerdown'' 1000 (0, 0) True)]"
    "calls secondPress = []"
    by (simp_all add: sp D5)
  have "timerFires delayTapRecognizer 1 D5 = startDrag delayTapRecognizer (D5\<lparr>timers := []\<rparr>)
      (mkEvent 1 ''pointerdown'' 1000 (0, 0) True)"
    by (simp add: timerFires_def D5)
  then show "u_active (drag (timerFires delayTapRecognizer 1 secondPress))"
    by (simp add: sp startDrag_u_active [OF delayTapRecognizer_fields(3)])
qed

end
